theory Spec2Isabelle
  imports Complex_Main
begin

section \<open>Tensors\<close>

text \<open>
  The notebook \<^verbatim>\<open>a2/student/parser model.ipynb\<close> defines one class, \<^verbatim>\<open>ParserModel\<close>,
  on top of a tensor library. The library calls it makes are embedded here as functions on
  tensors of fixed rank, stored row-major with their sizes, the way the library stores a
  contiguous tensor. A library call that raises returns \<open>Inl\<close> of the error.

  A floating tensor carries its dtype. The two dtypes are the ones the notebook meets:
  \<^verbatim>\<open>float32\<close>, which \<^verbatim>\<open>torch.zeros\<close> and the sanity checks use, and \<^verbatim>\<open>float64\<close>, the
  default of a numpy array. An index tensor is a tensor of integers (\<^verbatim>\<open>torch.long\<close>).

  The scalar type \<open>'a\<close> is a parameter, and only its operations are used (\<open>0\<close>, \<open>1\<close>,
  \<open>+\<close>, \<open>-\<close>, \<open>*\<close>, \<open>/\<close>, \<open>\<le>\<close>), never a law about them. The order in which a matrix
  product adds up its products is a parameter as well: the library chooses it.
\<close>

datatype error = IndexError | RuntimeError | ValueError | AssertionError

datatype dtype = Float32 | Float64

record 'a grid2 =
  size0 :: nat
  size1 :: nat
  data2 :: "'a list"

record 'a tensor2 = "'a grid2" +
  dtype :: dtype

type_synonym long_tensor2 = "int grid2"

record 'a tensor1 =
  data1 :: "'a list"
  dtype1 :: dtype

record 'a tensor3 =
  dim0 :: nat
  dim1 :: nat
  dim2 :: nat
  data3 :: "'a list"
  dtype3 :: dtype

definition wf_tensor2 :: "('a, 'z) grid2_scheme \<Rightarrow> bool" where
  "wf_tensor2 t \<longleftrightarrow> length (data2 t) = size0 t * size1 t"

definition row2 :: "('a, 'z) grid2_scheme \<Rightarrow> nat \<Rightarrow> 'a list" where
  "row2 t i = take (size1 t) (drop (i * size1 t) (data2 t))"

definition get2 :: "('a, 'z) grid2_scheme \<Rightarrow> nat \<Rightarrow> nat \<Rightarrow> 'a" where
  "get2 t i j = data2 t ! (i * size1 t + j)"

definition mk2 :: "dtype \<Rightarrow> nat \<Rightarrow> nat \<Rightarrow> (nat \<Rightarrow> nat \<Rightarrow> 'a) \<Rightarrow> 'a tensor2" where
  "mk2 d n m f =
     \<lparr>size0 = n, size1 = m, data2 = concat (map (\<lambda>i. map (f i) [0..<m]) [0..<n]), dtype = d\<rparr>"

subsection \<open>Indexing by an index tensor: \<^verbatim>\<open>self.embeddings[w]\<close>\<close>

text \<open>
  An index \<open>i\<close> into a dimension of size \<open>n\<close> is accepted when \<open>-n \<le> i < n\<close>; a negative
  index counts from the end. Any other index raises \<^verbatim>\<open>IndexError\<close>. The result has the
  dtype of the indexed tensor.
\<close>

definition wrap_index :: "nat \<Rightarrow> int \<Rightarrow> error + nat" where
  "wrap_index n i =
     (if 0 \<le> i \<and> i < int n then Inr (nat i)
      else if - int n \<le> i \<and> i < 0 then Inr (nat (i + int n))
      else Inl IndexError)"

fun wrap_indices :: "nat \<Rightarrow> int list \<Rightarrow> error + nat list" where
  "wrap_indices n [] = Inr []"
| "wrap_indices n (i # js) =
     (case wrap_index n i of
        Inl e \<Rightarrow> Inl e
      | Inr k \<Rightarrow> (case wrap_indices n js of Inl e \<Rightarrow> Inl e | Inr ks \<Rightarrow> Inr (k # ks)))"

definition index_rows :: "'a tensor2 \<Rightarrow> long_tensor2 \<Rightarrow> error + 'a tensor3" where
  "index_rows t w =
     (case wrap_indices (size0 t) (data2 w) of
        Inl e \<Rightarrow> Inl e
      | Inr ks \<Rightarrow> Inr \<lparr>dim0 = size0 w, dim1 = size1 w, dim2 = size1 t,
                       data3 = concat (map (row2 t) ks), dtype3 = dtype t\<rparr>)"

subsection \<open>Reshaping: \<^verbatim>\<open>x.view(x.size(0), -1)\<close>\<close>

text \<open>
  The library infers the size written \<^verbatim>\<open>-1\<close> from the number of elements and the product
  of the other sizes (here the single size \<open>s0\<close>). It accepts the shape when the number of
  elements equals that product, or when the product is positive and divides the number of
  elements; and it then refuses a product of zero, because the inferred size would be
  ambiguous ("cannot reshape tensor of 0 elements into shape [0, -1]").
\<close>

definition infer_size :: "nat \<Rightarrow> nat \<Rightarrow> error + nat" where
  "infer_size s0 numel =
     (if numel = s0 \<or> (0 < s0 \<and> numel mod s0 = 0)
      then (if s0 = 0 then Inl RuntimeError else Inr (numel div s0))
      else Inl RuntimeError)"

definition view_rows :: "'a tensor3 \<Rightarrow> error + 'a tensor2" where
  "view_rows x =
     (case infer_size (dim0 x) (dim0 x * dim1 x * dim2 x) of
        Inl e \<Rightarrow> Inl e
      | Inr c \<Rightarrow> Inr \<lparr>size0 = dim0 x, size1 = c, data2 = data3 x, dtype = dtype3 x\<rparr>)"

subsection \<open>The matrix product\<close>

text \<open>
  Entry \<open>(i, j)\<close> of \<^verbatim>\<open>torch.matmul(x, W)\<close> is the sum of the products
  \<open>x[i][k] * W[k][j]\<close>. The order in which the library adds them up is not fixed by the
  call: its kernels choose it from the sizes of the operands and the position of the entry,
  never from the values. A plan writes one such order down: it starts from zero or from a
  product, adds two partial sums, or adds a product to a partial sum in one fused step. The
  library is a parameter that gives the plan for every shape and position, and its fused
  multiply-add.
\<close>

datatype plan = Zero | Term nat | Add plan plan | Fused nat plan

record 'a backend =
  plan_of :: "nat \<Rightarrow> nat \<Rightarrow> nat \<Rightarrow> nat \<Rightarrow> nat \<Rightarrow> plan"
  fma :: "'a \<Rightarrow> 'a \<Rightarrow> 'a \<Rightarrow> 'a"

fun accumulate ::
  "('a \<Rightarrow> 'a \<Rightarrow> 'a \<Rightarrow> 'a) \<Rightarrow> (nat \<Rightarrow> 'a::{zero,plus,times}) \<Rightarrow> (nat \<Rightarrow> 'a) \<Rightarrow> plan \<Rightarrow> 'a"
where
  "accumulate fm f g Zero = 0"
| "accumulate fm f g (Term k) = f k * g k"
| "accumulate fm f g (Add l r) = accumulate fm f g l + accumulate fm f g r"
| "accumulate fm f g (Fused k acc) = fm (f k) (g k) (accumulate fm f g acc)"

text \<open>
  Entry \<open>(i, j)\<close> of the product of an \<open>n\<close> by \<open>K\<close> and a \<open>K\<close> by \<open>m\<close> matrix, from row
  \<open>i\<close> of the first (\<open>f\<close>) and column \<open>j\<close> of the second (\<open>g\<close>).
\<close>

definition entry ::
  "'a::{zero,plus,times} backend \<Rightarrow> nat \<Rightarrow> nat \<Rightarrow> nat \<Rightarrow> nat \<Rightarrow> nat \<Rightarrow>
   (nat \<Rightarrow> 'a) \<Rightarrow> (nat \<Rightarrow> 'a) \<Rightarrow> 'a"
where
  "entry lib n K m i j f g = accumulate (fma lib) f g (plan_of lib n K m i j)"

text \<open>
  A plan for a sum of \<open>K\<close> products uses each of them once. A library whose plans do is
  well-formed.
\<close>

fun plan_terms :: "plan \<Rightarrow> nat list" where
  "plan_terms Zero = []"
| "plan_terms (Term k) = [k]"
| "plan_terms (Add l r) = plan_terms l @ plan_terms r"
| "plan_terms (Fused k acc) = plan_terms acc @ [k]"

definition covers :: "nat \<Rightarrow> plan \<Rightarrow> bool" where
  "covers K p \<longleftrightarrow> distinct (plan_terms p) \<and> set (plan_terms p) = {..<K}"

definition backend_ok :: "'a backend \<Rightarrow> bool" where
  "backend_ok lib \<longleftrightarrow> (\<forall>n K m i j. covers K (plan_of lib n K m i j))"

text \<open>
  The product is refused with \<^verbatim>\<open>RuntimeError\<close> when the inner sizes differ, and when the
  dtypes of the two operands differ.
\<close>

definition matmul ::
  "'a::{zero,plus,times} backend \<Rightarrow> 'a tensor2 \<Rightarrow> 'a tensor2 \<Rightarrow> error + 'a tensor2"
where
  "matmul lib x W =
     (if size1 x = size0 W \<and> dtype x = dtype W
      then Inr (mk2 (dtype x) (size0 x) (size1 W)
                  (\<lambda>i j. entry lib (size0 x) (size1 x) (size1 W) i j
                           (\<lambda>k. get2 x i k) (\<lambda>k. get2 W k j)))
      else Inl RuntimeError)"

subsection \<open>Broadcast addition and ReLU\<close>

text \<open>
  Adding a vector of length \<open>L\<close> to a matrix with \<open>H\<close> columns broadcasts: the sizes must be
  equal or one of them must be 1, and a size of 1 is stretched to the other. Operands of
  different dtypes are not refused: the result has the wider dtype.
\<close>

definition promote :: "dtype \<Rightarrow> dtype \<Rightarrow> dtype" where
  "promote a b = (if a = Float64 \<or> b = Float64 then Float64 else Float32)"

definition add_bias :: "'a::plus tensor2 \<Rightarrow> 'a tensor1 \<Rightarrow> error + 'a tensor2" where
  "add_bias x b =
     (let H = size1 x; L = length (data1 b) in
      if H = L \<or> H = 1 \<or> L = 1
      then Inr (mk2 (promote (dtype x) (dtype1 b)) (size0 x) (if H = 1 then L else H)
                  (\<lambda>i j. get2 x i (if H = 1 then 0 else j)
                         + data1 b ! (if L = 1 then 0 else j)))
      else Inl RuntimeError)"

definition relu1 :: "'a::{zero,ord} \<Rightarrow> 'a" where
  "relu1 v = (if v \<le> 0 then 0 else v)"

definition relu :: "'a::{zero,ord} tensor2 \<Rightarrow> 'a tensor2" where
  "relu x = x\<lparr>data2 := map relu1 (data2 x)\<rparr>"

subsection \<open>The dropout layer\<close>

text \<open>
  \<^verbatim>\<open>nn.Dropout(p)\<close> refuses a probability outside \<open>[0, 1]\<close> with \<^verbatim>\<open>ValueError\<close>, when it is
  built and again when it is applied. A new module is in training mode. Applied in evaluation
  mode, or with \<open>p = 0\<close>, or to a tensor with no element, it returns its input. With \<open>p = 1\<close>
  it multiplies the input by zero. Otherwise it draws one Bernoulli sample per element,
  divides the samples by \<open>1 - p\<close> and multiplies the input by them. The samples are the
  argument \<open>noise\<close>, one per position of the row-major data: they are the one thing the
  method reads that is neither the model, nor its input, nor the library.
\<close>

record 'a Dropout =
  dropout_p :: 'a
  training :: bool

definition Dropout_init :: "'a::{zero,one,ord} \<Rightarrow> error + 'a Dropout" where
  "Dropout_init p =
     (if p < 0 \<or> 1 < p then Inl ValueError else Inr \<lparr>dropout_p = p, training = True\<rparr>)"

definition scale1 :: "'a::{zero,one,minus,times,inverse} \<Rightarrow> bool \<Rightarrow> 'a \<Rightarrow> 'a" where
  "scale1 p keep v = v * ((if keep then 1 else 0) / (1 - p))"

definition Dropout_forward ::
  "'a::{zero,one,minus,times,inverse,ord} Dropout \<Rightarrow> (nat \<Rightarrow> bool) \<Rightarrow> 'a tensor2 \<Rightarrow> error + 'a tensor2"
where
  "Dropout_forward d noise x =
     (let p = dropout_p d in
      if p < 0 \<or> 1 < p then Inl ValueError
      else if p = 0 \<or> \<not> training d \<or> data2 x = [] then Inr x
      else if p = 1 then Inr (x\<lparr>data2 := map (\<lambda>v. v * 0) (data2 x)\<rparr>)
      else Inr (x\<lparr>data2 := map (\<lambda>k. scale1 p (noise k) (data2 x ! k)) [0..<length (data2 x)]\<rparr>))"

section \<open>The parser model\<close>

record 'a ParserModel =
  n_features :: nat
  n_classes :: nat
  dropout_prob :: 'a
  embed_size :: nat
  hidden_size :: nat
  embeddings :: "'a tensor2"
  embed_to_hidden_weight :: "'a tensor2"
  embed_to_hidden_bias :: "'a tensor1"
  dropout :: "'a Dropout"
  hidden_to_logits_weight :: "'a tensor2"
  hidden_to_logits_bias :: "'a tensor1"

text \<open>
  \<^verbatim>\<open>__init__\<close> keeps the embedding array with its dtype (\<^verbatim>\<open>torch.tensor(embeddings)\<close>). It
  creates the four layer parameters with \<^verbatim>\<open>torch.zeros\<close>, so with the sizes below and the
  dtype \<^verbatim>\<open>float32\<close>, and fills them with random numbers (\<^verbatim>\<open>xavier_uniform_\<close>,
  \<^verbatim>\<open>uniform_\<close>); the numbers drawn are the arguments \<open>u1\<close> to \<open>u4\<close>, one per position.
\<close>

definition ParserModel_init ::
  "'a::{zero,one,ord} tensor2 \<Rightarrow> nat \<Rightarrow> nat \<Rightarrow> nat \<Rightarrow> 'a \<Rightarrow>
   (nat \<Rightarrow> 'a) \<Rightarrow> (nat \<Rightarrow> 'a) \<Rightarrow> (nat \<Rightarrow> 'a) \<Rightarrow> (nat \<Rightarrow> 'a) \<Rightarrow> error + 'a ParserModel"
where
  "ParserModel_init embeddings_arg nf hs nc p u1 u2 u3 u4 =
     (let es = size1 embeddings_arg in
      case Dropout_init p of
        Inl e \<Rightarrow> Inl e
      | Inr dr \<Rightarrow>
          Inr \<lparr>n_features = nf, n_classes = nc, dropout_prob = p, embed_size = es,
               hidden_size = hs, embeddings = embeddings_arg,
               embed_to_hidden_weight =
                 \<lparr>size0 = es * nf, size1 = hs, data2 = map u1 [0..<es * nf * hs],
                  dtype = Float32\<rparr>,
               embed_to_hidden_bias = \<lparr>data1 = map u2 [0..<hs], dtype1 = Float32\<rparr>,
               dropout = dr,
               hidden_to_logits_weight =
                 \<lparr>size0 = hs, size1 = nc, data2 = map u3 [0..<hs * nc], dtype = Float32\<rparr>,
               hidden_to_logits_bias = \<lparr>data1 = map u4 [0..<nc], dtype1 = Float32\<rparr>\<rparr>)"

text \<open>
  The methods take the model and return it with their result, so that a write to a field of
  \<^verbatim>\<open>self\<close> would show in the returned model.
\<close>

definition embedding_lookup ::
  "'a ParserModel \<Rightarrow> long_tensor2 \<Rightarrow> (error + 'a tensor2) \<times> 'a ParserModel"
where
  "embedding_lookup self w =
     (case index_rows (embeddings self) w of
        Inl e \<Rightarrow> (Inl e, self)
      | Inr x \<Rightarrow> (view_rows x, self))"

definition forward ::
  "'a::{zero,one,plus,minus,times,inverse,ord} backend \<Rightarrow> 'a ParserModel \<Rightarrow> (nat \<Rightarrow> bool) \<Rightarrow>
   long_tensor2 \<Rightarrow> (error + 'a tensor2) \<times> 'a ParserModel"
where
  "forward lib self noise w =
     (case embedding_lookup self w of
        (Inl e, self1) \<Rightarrow> (Inl e, self1)
      | (Inr x, self1) \<Rightarrow>
          (case matmul lib x (embed_to_hidden_weight self1) of
             Inl e \<Rightarrow> (Inl e, self1)
           | Inr xw \<Rightarrow>
               (case add_bias xw (embed_to_hidden_bias self1) of
                  Inl e \<Rightarrow> (Inl e, self1)
                | Inr a \<Rightarrow>
                    (case Dropout_forward (dropout self1) noise (relu a) of
                       Inl e \<Rightarrow> (Inl e, self1)
                     | Inr d \<Rightarrow>
                         (case matmul lib d (hidden_to_logits_weight self1) of
                            Inl e \<Rightarrow> (Inl e, self1)
                          | Inr dw \<Rightarrow> (add_bias dw (hidden_to_logits_bias self1), self1))))))"

section \<open>The sanity checks and the notebook's cells\<close>

text \<open>
  \<^verbatim>\<open>np.zeros((n, m), dtype=d)\<close>, and the constructor called with its default arguments
  \<^verbatim>\<open>n_features=36, hidden_size=200, n_classes=3, dropout_prob=0.5\<close>.
\<close>

definition zeros2 :: "dtype \<Rightarrow> nat \<Rightarrow> nat \<Rightarrow> 'a::zero tensor2" where
  "zeros2 d n m = \<lparr>size0 = n, size1 = m, data2 = replicate (n * m) 0, dtype = d\<rparr>"

definition ParserModel_default ::
  "'a::{zero,one,plus,inverse,ord} tensor2 \<Rightarrow>
   (nat \<Rightarrow> 'a) \<Rightarrow> (nat \<Rightarrow> 'a) \<Rightarrow> (nat \<Rightarrow> 'a) \<Rightarrow> (nat \<Rightarrow> 'a) \<Rightarrow> error + 'a ParserModel"
where
  "ParserModel_default embeddings_arg u1 u2 u3 u4 =
     ParserModel_init embeddings_arg 36 200 3 (1 / (1 + 1)) u1 u2 u3 u4"

text \<open>
  \<^verbatim>\<open>check_embedding\<close> and \<^verbatim>\<open>check_forward\<close> close over \<^verbatim>\<open>model\<close>. The tensor that
  \<^verbatim>\<open>torch.randint(0, 100, (4, 36))\<close> returns is their argument here. The call
  \<^verbatim>\<open>model(inputs)\<close> is a call of \<^verbatim>\<open>forward\<close>, and \<^verbatim>\<open>np.all(... == 0)\<close> holds when
  every element equals zero.
\<close>

definition check_embedding ::
  "'a::zero ParserModel \<Rightarrow> long_tensor2 \<Rightarrow> (error + unit) \<times> 'a ParserModel"
where
  "check_embedding model inds =
     (case embedding_lookup model inds of
        (Inl e, model1) \<Rightarrow> (Inl e, model1)
      | (Inr selected, model1) \<Rightarrow>
          (if list_all (\<lambda>v. v = 0) (data2 selected) then Inr () else Inl AssertionError, model1))"

definition check_forward ::
  "'a::{zero,one,plus,minus,times,inverse,ord} backend \<Rightarrow> 'a ParserModel \<Rightarrow> (nat \<Rightarrow> bool) \<Rightarrow>
   long_tensor2 \<Rightarrow> (error + unit) \<times> 'a ParserModel"
where
  "check_forward lib model noise inputs =
     (case forward lib model noise inputs of
        (Inl e, model1) \<Rightarrow> (Inl e, model1)
      | (Inr out, model1) \<Rightarrow>
          (if (size0 out, size1 out) = (4, 3) then Inr () else Inl AssertionError, model1))"

text \<open>
  A run of the notebook is observed through its trace: which check was called, and what was
  printed. Everything random in a cell (the initial parameters, the two index tensors, the
  dropout samples) is in a record of draws.
\<close>

datatype event = Runs_check_embedding | Runs_check_forward | Prints string

record Namespace =
  arg_embedding :: bool
  arg_forward :: bool

record 'a draws =
  init_u1 :: "nat \<Rightarrow> 'a"
  init_u2 :: "nat \<Rightarrow> 'a"
  init_u3 :: "nat \<Rightarrow> 'a"
  init_u4 :: "nat \<Rightarrow> 'a"
  randint_inds :: long_tensor2
  randint_inputs :: long_tensor2
  bernoulli :: "nat \<Rightarrow> bool"

definition embedding_branch ::
  "'a::zero ParserModel \<Rightarrow> long_tensor2 \<Rightarrow> event list \<Rightarrow> (error + 'a ParserModel) \<times> event list"
where
  "embedding_branch model inds tr =
     (case check_embedding model inds of
        (Inl e, model1) \<Rightarrow> (Inl e, tr @ [Runs_check_embedding])
      | (Inr u, model1) \<Rightarrow>
          (Inr model1,
           tr @ [Runs_check_embedding, Prints ''Embedding_lookup sanity check passes!'']))"

definition forward_branch ::
  "'a::{zero,one,plus,minus,times,inverse,ord} backend \<Rightarrow> 'a ParserModel \<Rightarrow> (nat \<Rightarrow> bool) \<Rightarrow>
   long_tensor2 \<Rightarrow> event list \<Rightarrow> (error + 'a ParserModel) \<times> event list"
where
  "forward_branch lib model noise inputs tr =
     (case check_forward lib model noise inputs of
        (Inl e, model1) \<Rightarrow> (Inl e, tr @ [Runs_check_forward])
      | (Inr u, model1) \<Rightarrow>
          (Inr model1, tr @ [Runs_check_forward, Prints ''Forward sanity check passes!'']))"

text \<open>
  The cell that defines the class, and the two cells after it. Each builds its model from
  \<^verbatim>\<open>np.zeros((100, 30), dtype=np.float32)\<close>.
\<close>

definition cell3 ::
  "'a::{zero,one,plus,minus,times,inverse,ord} backend \<Rightarrow> Namespace \<Rightarrow> 'a draws \<Rightarrow> event list \<Rightarrow>
   (error + unit) \<times> event list"
where
  "cell3 lib args r tr =
     (case ParserModel_default (zeros2 Float32 100 30)
             (init_u1 r) (init_u2 r) (init_u3 r) (init_u4 r) of
        Inl e \<Rightarrow> (Inl e, tr)
      | Inr model \<Rightarrow>
          (case (if arg_embedding args then embedding_branch model (randint_inds r) tr
                 else (Inr model, tr)) of
             (Inl e, tr1) \<Rightarrow> (Inl e, tr1)
           | (Inr model1, tr1) \<Rightarrow>
               (if arg_forward args
                then (case forward_branch lib model1 (bernoulli r) (randint_inputs r) tr1 of
                        (Inl e, tr2) \<Rightarrow> (Inl e, tr2)
                      | (Inr model2, tr2) \<Rightarrow> (Inr (), tr2))
                else (Inr (), tr1))))"

definition cell4 ::
  "Namespace \<Rightarrow> 'a::{zero,one,plus,inverse,ord} draws \<Rightarrow> event list \<Rightarrow>
   (error + unit) \<times> event list"
where
  "cell4 args r tr =
     (case ParserModel_default (zeros2 Float32 100 30)
             (init_u1 r) (init_u2 r) (init_u3 r) (init_u4 r) of
        Inl e \<Rightarrow> (Inl e, tr)
      | Inr model \<Rightarrow>
          (if arg_embedding args
           then (case embedding_branch model (randint_inds r) tr of
                   (Inl e, tr1) \<Rightarrow> (Inl e, tr1)
                 | (Inr model1, tr1) \<Rightarrow> (Inr (), tr1))
           else (Inr (), tr)))"

definition cell5 ::
  "'a::{zero,one,plus,minus,times,inverse,ord} backend \<Rightarrow> Namespace \<Rightarrow> 'a draws \<Rightarrow> event list \<Rightarrow>
   (error + unit) \<times> event list"
where
  "cell5 lib args r tr =
     (case ParserModel_default (zeros2 Float32 100 30)
             (init_u1 r) (init_u2 r) (init_u3 r) (init_u4 r) of
        Inl e \<Rightarrow> (Inl e, tr)
      | Inr model \<Rightarrow>
          (if arg_forward args
           then (case forward_branch lib model (bernoulli r) (randint_inputs r) tr of
                   (Inl e, tr1) \<Rightarrow> (Inl e, tr1)
                 | (Inr model1, tr1) \<Rightarrow> (Inr (), tr1))
           else (Inr (), tr @ [Prints ''No''])))"

text \<open>The cell after them prints \<^verbatim>\<open>sys.executable\<close>, a path that the interpreter gives.\<close>

definition cell6 :: "string \<Rightarrow> event list \<Rightarrow> (error + unit) \<times> event list" where
  "cell6 executable tr = (Inr (), tr @ [Prints executable])"

text \<open>
  The first cell imports the libraries. The second cell sets
  \<^verbatim>\<open>args = argparse.Namespace(embedding=True, forward=False)\<close>. The cells then run in
  order, each with its own draws, and an exception stops the run. The last cell is empty.
\<close>

definition notebook_args :: Namespace where
  "notebook_args = \<lparr>arg_embedding = True, arg_forward = False\<rparr>"

definition run_notebook ::
  "'a::{zero,one,plus,minus,times,inverse,ord} backend \<Rightarrow> string \<Rightarrow>
   'a draws \<Rightarrow> 'a draws \<Rightarrow> 'a draws \<Rightarrow> (error + unit) \<times> event list"
where
  "run_notebook lib executable r3 r4 r5 =
     (case cell3 lib notebook_args r3 [] of
        (Inl e, tr) \<Rightarrow> (Inl e, tr)
      | (Inr u, tr) \<Rightarrow>
          (case cell4 notebook_args r4 tr of
             (Inl e, tr1) \<Rightarrow> (Inl e, tr1)
           | (Inr u1, tr1) \<Rightarrow>
               (case cell5 lib notebook_args r5 tr1 of
                  (Inl e, tr2) \<Rightarrow> (Inl e, tr2)
                | (Inr u2, tr2) \<Rightarrow> cell6 executable tr2)))"

section \<open>Well-formed models and inputs\<close>

text \<open>
  The sizes that \<^verbatim>\<open>__init__\<close> gives the parameters, which training keeps; the four layer
  parameters have one dtype; and the dropout probability is in the range that
  \<^verbatim>\<open>nn.Dropout\<close> accepts. The dtype of the embedding matrix is the dtype of the array the
  model was built from, and is not constrained.
\<close>

definition prob_ok :: "'a::{zero,one,ord} \<Rightarrow> bool" where
  "prob_ok p \<longleftrightarrow> \<not> p < 0 \<and> \<not> 1 < p"

definition ParserModel_inv :: "'a::{zero,one,ord} ParserModel \<Rightarrow> bool" where
  "ParserModel_inv m \<longleftrightarrow>
     wf_tensor2 (embeddings m) \<and> size1 (embeddings m) = embed_size m \<and>
     wf_tensor2 (embed_to_hidden_weight m) \<and>
     size0 (embed_to_hidden_weight m) = embed_size m * n_features m \<and>
     size1 (embed_to_hidden_weight m) = hidden_size m \<and>
     length (data1 (embed_to_hidden_bias m)) = hidden_size m \<and>
     dtype1 (embed_to_hidden_bias m) = dtype (embed_to_hidden_weight m) \<and>
     wf_tensor2 (hidden_to_logits_weight m) \<and>
     size0 (hidden_to_logits_weight m) = hidden_size m \<and>
     size1 (hidden_to_logits_weight m) = n_classes m \<and>
     dtype (hidden_to_logits_weight m) = dtype (embed_to_hidden_weight m) \<and>
     length (data1 (hidden_to_logits_bias m)) = n_classes m \<and>
     dtype1 (hidden_to_logits_bias m) = dtype (embed_to_hidden_weight m) \<and>
     prob_ok (dropout_p (dropout m))"

text \<open>
  The embedding matrix has the dtype of the layer parameters: for a model that the
  constructor built, the array it was built from was a \<^verbatim>\<open>float32\<close> array.
\<close>

definition embeddings_match :: "'a ParserModel \<Rightarrow> bool" where
  "embeddings_match m \<longleftrightarrow> dtype (embeddings m) = dtype (embed_to_hidden_weight m)"

text \<open>
  An index tensor of shape \<open>(batch_size, n_features)\<close> whose entries are row indices of the
  embedding matrix, counted from 0.
\<close>

definition valid_indices :: "'a tensor2 \<Rightarrow> long_tensor2 \<Rightarrow> bool" where
  "valid_indices E w \<longleftrightarrow> list_all (\<lambda>i. 0 \<le> i \<and> i < int (size0 E)) (data2 w)"

definition valid_input :: "'a ParserModel \<Rightarrow> long_tensor2 \<Rightarrow> bool" where
  "valid_input m w \<longleftrightarrow>
     wf_tensor2 w \<and> size1 w = n_features m \<and> valid_indices (embeddings m) w"

text \<open>What \<^verbatim>\<open>torch.randint(0, 100, (4, 36))\<close> can return.\<close>

definition randint_0_100_4_36 :: "long_tensor2 \<Rightarrow> bool" where
  "randint_0_100_4_36 t \<longleftrightarrow>
     size0 t = 4 \<and> size1 t = 36 \<and> length (data2 t) = 144 \<and>
     list_all (\<lambda>i. 0 \<le> i \<and> i < 100) (data2 t)"

section \<open>The pipeline as the specification words it\<close>

text \<open>
  Row \<open>b\<close> of the lookup is the concatenation of the embedding rows that the indices
  \<open>w[b][0], ..., w[b][n_features - 1]\<close> select.
\<close>

definition lookup_row_spec :: "'a tensor2 \<Rightarrow> long_tensor2 \<Rightarrow> nat \<Rightarrow> 'a list" where
  "lookup_row_spec E w b = concat (map (\<lambda>f. row2 E (nat (get2 w b f))) [0..<size1 w])"

text \<open>
  Entry by entry: \<open>h = ReLU(x W\<^sub>1 + b\<^sub>1)\<close>, then \<open>d = dropout(h)\<close>, then
  \<open>logits = d W\<^sub>2 + b\<^sub>2\<close>, and nothing after it. The products \<open>x W\<^sub>1\<close> and \<open>d W\<^sub>2\<close> are
  the library's matrix products, which exist for operands of one dtype.
\<close>

definition hidden_spec ::
  "'a::{zero,plus,times,ord} backend \<Rightarrow> 'a ParserModel \<Rightarrow> 'a tensor2 \<Rightarrow> 'a tensor2"
where
  "hidden_spec lib m x =
     mk2 (dtype x) (size0 x) (hidden_size m)
       (\<lambda>b j. relu1 (entry lib (size0 x) (size1 x) (hidden_size m) b j
                        (\<lambda>k. get2 x b k) (\<lambda>k. get2 (embed_to_hidden_weight m) k j)
                      + data1 (embed_to_hidden_bias m) ! j))"

definition dropped_spec ::
  "'a::{zero,one,plus,minus,times,inverse,ord} backend \<Rightarrow> 'a ParserModel \<Rightarrow> (nat \<Rightarrow> bool) \<Rightarrow>
   'a tensor2 \<Rightarrow> 'a tensor2"
where
  "dropped_spec lib m noise x =
     (let p = dropout_p (dropout m); h = hidden_spec lib m x in
      mk2 (dtype x) (size0 x) (hidden_size m)
        (\<lambda>b j. if p = 0 \<or> \<not> training (dropout m) then get2 h b j
               else if p = 1 then get2 h b j * 0
               else scale1 p (noise (b * hidden_size m + j)) (get2 h b j)))"

definition logits_spec ::
  "'a::{zero,one,plus,minus,times,inverse,ord} backend \<Rightarrow> 'a ParserModel \<Rightarrow> (nat \<Rightarrow> bool) \<Rightarrow>
   'a tensor2 \<Rightarrow> 'a tensor2"
where
  "logits_spec lib m noise x =
     (let d = dropped_spec lib m noise x in
      mk2 (dtype x) (size0 x) (n_classes m)
        (\<lambda>b c. entry lib (size0 x) (hidden_size m) (n_classes m) b c
                  (\<lambda>j. get2 d b j) (\<lambda>j. get2 (hidden_to_logits_weight m) j c)
                + data1 (hidden_to_logits_bias m) ! c))"

definition pipeline_spec ::
  "'a::{zero,one,plus,minus,times,inverse,ord} backend \<Rightarrow> 'a ParserModel \<Rightarrow> (nat \<Rightarrow> bool) \<Rightarrow>
   'a tensor2 \<Rightarrow> error + 'a tensor2"
where
  "pipeline_spec lib m noise x =
     (if dtype x = dtype (embed_to_hidden_weight m) then Inr (logits_spec lib m noise x)
      else Inl RuntimeError)"

section \<open>Definitions for the proofs\<close>

text \<open>The tensor that a successful lookup returns.\<close>

definition lookup_tensor :: "'a tensor2 \<Rightarrow> long_tensor2 \<Rightarrow> 'a tensor2" where
  "lookup_tensor E w =
     \<lparr>size0 = size0 w, size1 = size1 w * size1 E,
      data2 = concat (map (row2 E) (map nat (data2 w))), dtype = dtype E\<rparr>"

text \<open>What the dropout layer returns at one position, when it accepts its probability.\<close>

definition dropout1 ::
  "'a::{zero,one,minus,times,inverse,ord} Dropout \<Rightarrow> bool \<Rightarrow> 'a \<Rightarrow> 'a"
where
  "dropout1 d keep v =
     (if dropout_p d = 0 \<or> \<not> training d then v
      else if dropout_p d = 1 then v * 0
      else scale1 (dropout_p d) keep v)"

text \<open>Two models with equal parameters: the five tensors that \<^verbatim>\<open>nn.Parameter\<close> wraps.\<close>

definition same_parameters :: "'a ParserModel \<Rightarrow> 'a ParserModel \<Rightarrow> bool" where
  "same_parameters m1 m2 \<longleftrightarrow>
     embeddings m1 = embeddings m2 \<and>
     embed_to_hidden_weight m1 = embed_to_hidden_weight m2 \<and>
     embed_to_hidden_bias m1 = embed_to_hidden_bias m2 \<and>
     hidden_to_logits_weight m1 = hidden_to_logits_weight m2 \<and>
     hidden_to_logits_bias m1 = hidden_to_logits_bias m2"


text \<open>Two orders: from the first product to the last, and from the last to the first.\<close>

definition left_to_right :: "nat \<Rightarrow> plan" where
  "left_to_right K = foldl Add Zero (map Term [0..<K])"


section \<open>Examples\<close>

text \<open>
  A library that adds up the products from left to right for every shape, on real numbers.
\<close>

definition example_backend :: "real backend" where
  "example_backend = \<lparr>plan_of = (\<lambda>n K m i j. left_to_right K), fma = (\<lambda>a b c. a * b + c)\<rparr>"

text \<open>
  A small model: three words with embeddings of size 2, two features, two hidden units and
  two classes, all \<^verbatim>\<open>float32\<close>, in training mode as a new model is; and the same model in
  evaluation mode.
\<close>

definition example_model :: "real ParserModel" where
  "example_model =
     \<lparr>n_features = 2, n_classes = 2, dropout_prob = 1 / 2, embed_size = 2, hidden_size = 2,
      embeddings = \<lparr>size0 = 3, size1 = 2, data2 = [1, 2, 3, 4, 5, 6], dtype = Float32\<rparr>,
      embed_to_hidden_weight =
        \<lparr>size0 = 4, size1 = 2, data2 = [1, 0, 0, 1, - 1, 0, 0, - 1], dtype = Float32\<rparr>,
      embed_to_hidden_bias = \<lparr>data1 = [0, 1], dtype1 = Float32\<rparr>,
      dropout = \<lparr>dropout_p = 1 / 2, training = True\<rparr>,
      hidden_to_logits_weight = \<lparr>size0 = 2, size1 = 2, data2 = [1, 2, 3, 4], dtype = Float32\<rparr>,
      hidden_to_logits_bias = \<lparr>data1 = [1, 0], dtype1 = Float32\<rparr>\<rparr>"

definition example_model_eval :: "real ParserModel" where
  "example_model_eval = example_model\<lparr>dropout := \<lparr>dropout_p = 1 / 2, training = False\<rparr>\<rparr>"

definition example_input :: long_tensor2 where
  "example_input = \<lparr>size0 = 2, size1 = 2, data2 = [0, 1, 2, 0]\<rparr>"

definition empty_batch :: long_tensor2 where
  "empty_batch = \<lparr>size0 = 0, size1 = 2, data2 = []\<rparr>"



text \<open>
  The example model in evaluation mode with other values in the fields that forward does
  not read, and the example model with such values.
\<close>

definition example_model_eval2 :: "real ParserModel" where
  "example_model_eval2 =
     example_model\<lparr>n_features := 7, dropout_prob := 1 / 4,
                   dropout := \<lparr>dropout_p = 1 / 4, training = False\<rparr>\<rparr>"

definition example_model2 :: "real ParserModel" where
  "example_model2 = example_model\<lparr>n_features := 7, dropout_prob := 1 / 4\<rparr>"

text \<open>
  The model that the constructor builds from a \<^verbatim>\<open>float64\<close> array, the default dtype of
  numpy, with all initial parameters drawn as 1: its layer parameters are \<^verbatim>\<open>float32\<close>.
\<close>

definition example_array64 :: "real tensor2" where
  "example_array64 = \<lparr>size0 = 3, size1 = 2, data2 = [1, 2, 3, 4, 5, 6], dtype = Float64\<rparr>"

definition example_model64 :: "real ParserModel" where
  "example_model64 =
     \<lparr>n_features = 2, n_classes = 2, dropout_prob = 1 / 2, embed_size = 2, hidden_size = 2,
      embeddings = example_array64,
      embed_to_hidden_weight =
        \<lparr>size0 = 4, size1 = 2, data2 = [1, 1, 1, 1, 1, 1, 1, 1], dtype = Float32\<rparr>,
      embed_to_hidden_bias = \<lparr>data1 = [1, 1], dtype1 = Float32\<rparr>,
      dropout = \<lparr>dropout_p = 1 / 2, training = True\<rparr>,
      hidden_to_logits_weight = \<lparr>size0 = 2, size1 = 2, data2 = [1, 1, 1, 1], dtype = Float32\<rparr>,
      hidden_to_logits_bias = \<lparr>data1 = [1, 1], dtype1 = Float32\<rparr>\<rparr>"

text \<open>Draws for one cell.\<close>

definition example_draws :: "real draws" where
  "example_draws =
     \<lparr>init_u1 = (\<lambda>k. 0), init_u2 = (\<lambda>k. 0), init_u3 = (\<lambda>k. 0), init_u4 = (\<lambda>k. 0),
      randint_inds = \<lparr>size0 = 4, size1 = 36, data2 = replicate 144 7\<rparr>,
      randint_inputs = \<lparr>size0 = 4, size1 = 36, data2 = replicate 144 7\<rparr>,
      bernoulli = even\<rparr>"

subsection \<open>An arithmetic that rounds\<close>

text \<open>
  The numbers of \<^verbatim>\<open>float32\<close> with their arithmetic: every operation returns the exact
  result rounded to 24 significant bits, a tie going to the even neighbour. The range of the
  exponent is not limited here, so overflow, underflow, infinities and NaN are outside, and
  a division by zero has the value 0.
\<close>

datatype f32 = F32 rat

fun value_of :: "f32 \<Rightarrow> rat" where
  "value_of (F32 r) = r"

function log2i :: "int \<Rightarrow> nat" where
  "log2i n = (if n < 2 then 0 else Suc (log2i (n div 2)))"
  by pat_completeness auto
termination
  by (relation "measure nat") auto

text \<open>The exponent \<open>e\<close> with \<open>2\<^sup>e \<le> |x| < 2\<^sup>e\<^sup>+\<^sup>1\<close>, for \<open>x\<close> other than 0.\<close>

definition exponent :: "rat \<Rightarrow> int" where
  "exponent x =
     (let a = \<bar>x\<bar> in
      if 1 \<le> a then int (log2i \<lfloor>a\<rfloor>)
      else - int (Suc (log2i (\<lceil>1 / a\<rceil> - 1))))"

definition pow2 :: "int \<Rightarrow> rat" where
  "pow2 e = (if 0 \<le> e then 2 ^ nat e else 1 / 2 ^ nat (- e))"

definition nearest_even :: "rat \<Rightarrow> int" where
  "nearest_even y =
     (let f = \<lfloor>y\<rfloor>; r = y - of_int f in
      if r < 1 / 2 then f else if 1 / 2 < r then f + 1 else if even f then f else f + 1)"

definition round32 :: "rat \<Rightarrow> rat" where
  "round32 x =
     (if x = 0 then 0
      else let q = pow2 (exponent x - 23) in of_int (nearest_even (x / q)) * q)"

instantiation f32 :: "{zero,one,plus,minus,times,inverse,ord}"
begin

definition zero_f32_def: "0 = F32 0"

definition one_f32_def: "1 = F32 1"

definition plus_f32_def: "x + y = F32 (round32 (value_of x + value_of y))"

definition minus_f32_def: "x - y = F32 (round32 (value_of x - value_of y))"

definition times_f32_def: "x * y = F32 (round32 (value_of x * value_of y))"

definition divide_f32_def: "x div y = F32 (round32 (value_of x / value_of y))"

definition inverse_f32_def: "inverse x = F32 (round32 (1 / value_of x))"

definition less_eq_f32_def: "x \<le> y \<longleftrightarrow> value_of x \<le> value_of y"

definition less_f32_def: "x < y \<longleftrightarrow> value_of x < value_of y"

instance ..

end





section \<open>Facts about the tensor operations\<close>

lemma length_concat_uniform:
  "(\<And>x. x \<in> set xs \<Longrightarrow> length (g x) = d) \<Longrightarrow> length (concat (map g xs)) = length xs * d"
  by (induction xs) auto

lemma drop_concat_uniform:
  "(\<And>x. x \<in> set xs \<Longrightarrow> length (g x) = d) \<Longrightarrow>
   drop (n * d) (concat (map g xs)) = concat (map g (drop n xs))"
proof (induction xs arbitrary: n)
  case Nil
  then show ?case by simp
next
  case (Cons x xs)
  show ?case
  proof (cases n)
    case 0
    then show ?thesis by simp
  next
    case (Suc k)
    have "length (g x) = d" using Cons.prems by simp
    moreover have "drop (k * d) (concat (map g xs)) = concat (map g (drop k xs))"
      using Cons.IH Cons.prems by simp
    ultimately show ?thesis using Suc by simp
  qed
qed

lemma take_concat_uniform:
  "(\<And>x. x \<in> set xs \<Longrightarrow> length (g x) = d) \<Longrightarrow>
   take (n * d) (concat (map g xs)) = concat (map g (take n xs))"
proof (induction xs arbitrary: n)
  case Nil
  then show ?case by simp
next
  case (Cons x xs)
  show ?case
  proof (cases n)
    case 0
    then show ?thesis by simp
  next
    case (Suc k)
    have "length (g x) = d" using Cons.prems by simp
    moreover have "take (k * d) (concat (map g xs)) = concat (map g (take k xs))"
      using Cons.IH Cons.prems by simp
    ultimately show ?thesis using Suc by simp
  qed
qed

lemma slice_concat_uniform:
  assumes "\<And>x. x \<in> set xs \<Longrightarrow> length (g x) = d"
  shows "take (m * d) (drop (n * d) (concat (map g xs))) = concat (map g (take m (drop n xs)))"
proof -
  have "\<And>x. x \<in> set (drop n xs) \<Longrightarrow> length (g x) = d"
    using assms by (meson in_set_dropD)
  then show ?thesis
    using assms by (simp add: drop_concat_uniform take_concat_uniform)
qed

lemma flat_index_bound: "i < n \<Longrightarrow> j < m \<Longrightarrow> i * m + j < n * (m::nat)"
proof -
  assume i: "i < n" and j: "j < m"
  have "i * m + j < i * m + m" using j by simp
  also have "\<dots> = Suc i * m" by simp
  also have "\<dots> \<le> n * m" using i by (intro mult_le_mono1) simp
  finally show ?thesis .
qed

lemma sizes_mk2:
  "size0 (mk2 d n m f) = n" "size1 (mk2 d n m f) = m" "dtype (mk2 d n m f) = d"
  by (simp_all add: mk2_def)

lemma wf_mk2: "wf_tensor2 (mk2 d n m f)"
  by (simp add: wf_tensor2_def mk2_def length_concat_uniform [where d = m])

lemma row2_mk2: "i < n \<Longrightarrow> row2 (mk2 d n m f) i = map (f i) [0..<m]"
proof -
  assume i: "i < n"
  let ?g = "\<lambda>i. map (f i) [0..<m]"
  have "take (1 * m) (drop (i * m) (concat (map ?g [0..<n]))) = concat (map ?g (take 1 (drop i [0..<n])))"
    by (rule slice_concat_uniform) simp
  moreover have "take 1 (drop i [0..<n]) = [i]"
    using i by (simp add: take_Suc_conv_app_nth)
  ultimately show ?thesis by (simp add: row2_def mk2_def)
qed

lemma get2_row2:
  "wf_tensor2 t \<Longrightarrow> i < size0 t \<Longrightarrow> j < size1 t \<Longrightarrow> get2 t i j = row2 t i ! j"
proof -
  assume wf: "wf_tensor2 t" and i: "i < size0 t" and j: "j < size1 t"
  have "i * size1 t + j < length (data2 t)"
    using wf flat_index_bound [OF i j] by (simp add: wf_tensor2_def)
  then show ?thesis using j by (simp add: get2_def row2_def)
qed

lemma length_row2:
  "wf_tensor2 t \<Longrightarrow> i < size0 t \<Longrightarrow> length (row2 t i) = size1 t"
proof -
  assume wf: "wf_tensor2 t" and i: "i < size0 t"
  have "i * size1 t + size1 t \<le> size0 t * size1 t"
    using i by (metis Suc_leI mult_Suc mult_le_mono1 add.commute)
  then show ?thesis using wf by (simp add: row2_def wf_tensor2_def)
qed

lemma row2_as_get2:
  "wf_tensor2 t \<Longrightarrow> b < size0 t \<Longrightarrow> row2 t b = map (get2 t b) [0..<size1 t]"
  by (rule nth_equalityI) (simp_all add: length_row2 get2_row2)

lemma get2_mk2: "i < n \<Longrightarrow> j < m \<Longrightarrow> get2 (mk2 d n m f) i j = f i j"
proof -
  assume i: "i < n" and j: "j < m"
  have "get2 (mk2 d n m f) i j = row2 (mk2 d n m f) i ! j"
    using i j by (simp add: get2_row2 wf_mk2 sizes_mk2)
  then show ?thesis using i j by (simp add: row2_mk2)
qed

lemma mk2_cong:
  assumes "\<And>i j. i < n \<Longrightarrow> j < m \<Longrightarrow> f i j = g i j"
  shows "mk2 d n m f = mk2 d n m g"
proof -
  have eq: "map (\<lambda>i. map (f i) [0..<m]) [0..<n] = map (\<lambda>i. map (g i) [0..<m]) [0..<n]"
    using assms by simp
  show ?thesis by (simp only: mk2_def eq)
qed

text \<open>A well-formed tensor is the table of its entries.\<close>

lemma concat_rows:
  "concat (map (row2 t) [0..<n]) = take (n * size1 t) (data2 t)"
proof (induction n)
  case 0
  then show ?case by simp
next
  case (Suc n)
  have "take (n * size1 t + size1 t) (data2 t)
        = take (n * size1 t) (data2 t) @ take (size1 t) (drop (n * size1 t) (data2 t))"
    by (rule take_add)
  then have "take (Suc n * size1 t) (data2 t) = take (n * size1 t) (data2 t) @ row2 t n"
    by (simp add: row2_def add.commute)
  then show ?case using Suc by simp
qed

lemma mk2_get2:
  assumes "wf_tensor2 (t :: 'a tensor2)"
  shows "mk2 (dtype t) (size0 t) (size1 t) (get2 t) = t"
proof -
  have "map (\<lambda>i. map (get2 t i) [0..<size1 t]) [0..<size0 t] = map (row2 t) [0..<size0 t]"
    by (rule map_cong) (simp_all add: row2_as_get2 [OF assms])
  then have "concat (map (\<lambda>i. map (get2 t i) [0..<size1 t]) [0..<size0 t])
        = concat (map (row2 t) [0..<size0 t])"
    by (simp only:)
  also have "\<dots> = data2 t"
    using assms by (simp add: concat_rows wf_tensor2_def)
  finally show ?thesis by (simp add: mk2_def)
qed

lemma tensor2_eqI:
  assumes "wf_tensor2 (t :: 'a tensor2)" and "wf_tensor2 (t' :: 'a tensor2)"
    and "size0 t = size0 t'" and "size1 t = size1 t'" and "dtype t = dtype t'"
    and "\<And>i j. i < size0 t \<Longrightarrow> j < size1 t \<Longrightarrow> get2 t i j = get2 t' i j"
  shows "t = t'"
proof -
  have "t = mk2 (dtype t) (size0 t) (size1 t) (get2 t)"
    by (rule mk2_get2 [OF assms(1), symmetric])
  also have "\<dots> = mk2 (dtype t) (size0 t) (size1 t) (get2 t')"
    by (rule mk2_cong) (rule assms(6))
  also have "\<dots> = mk2 (dtype t') (size0 t') (size1 t') (get2 t')"
    by (simp only: assms(3,4,5))
  also have "\<dots> = t'"
    by (rule mk2_get2 [OF assms(2)])
  finally show ?thesis .
qed

subsection \<open>The lookup\<close>

lemma wrap_indices_valid:
  "list_all (\<lambda>i. 0 \<le> i \<and> i < int n) js \<Longrightarrow> wrap_indices n js = Inr (map nat js)"
  by (induction js) (simp_all add: wrap_index_def)

lemma wrap_indices_error: "wrap_indices n js = Inl e \<Longrightarrow> e = IndexError"
  by (induction js) (auto simp: wrap_index_def split: if_splits sum.splits)

lemma wrap_indices_accepts:
  "wrap_indices n js = Inr ks \<Longrightarrow> list_all (\<lambda>i. - int n \<le> i \<and> i < int n) js"
  by (induction js arbitrary: ks) (auto simp: wrap_index_def split: if_splits sum.splits)

lemma index_rows_valid:
  "valid_indices E w \<Longrightarrow>
   index_rows E w = Inr \<lparr>dim0 = size0 w, dim1 = size1 w, dim2 = size1 E,
                         data3 = concat (map (row2 E) (map nat (data2 w))),
                         dtype3 = dtype E\<rparr>"
  by (simp add: index_rows_def valid_indices_def wrap_indices_valid)

lemma infer_size_rows: "0 < b \<Longrightarrow> infer_size b (b * f * d) = Inr (f * d)"
  by (simp add: infer_size_def mult.assoc)

lemma infer_size_empty: "infer_size 0 n = Inl RuntimeError"
  by (simp add: infer_size_def)

lemma embedding_lookup_valid:
  "valid_indices (embeddings m) w \<Longrightarrow> 0 < size0 w \<Longrightarrow>
   embedding_lookup m w = (Inr (lookup_tensor (embeddings m) w), m)"
  by (simp add: embedding_lookup_def index_rows_valid view_rows_def infer_size_rows
      lookup_tensor_def)

lemma embedding_lookup_empty:
  "valid_indices (embeddings m) w \<Longrightarrow> size0 w = 0 \<Longrightarrow>
   embedding_lookup m w = (Inl RuntimeError, m)"
  by (simp add: embedding_lookup_def index_rows_valid view_rows_def infer_size_empty)

lemma valid_row_length:
  "wf_tensor2 E \<Longrightarrow> valid_indices E w \<Longrightarrow> i \<in> set (map nat (data2 w)) \<Longrightarrow>
   length (row2 E i) = size1 E"
proof -
  assume wf: "wf_tensor2 E" and v: "valid_indices E w" and i: "i \<in> set (map nat (data2 w))"
  then obtain z where z: "z \<in> set (data2 w)" and iz: "i = nat z" by auto
  have "0 \<le> z \<and> z < int (size0 E)"
    using v z by (simp add: valid_indices_def list_all_iff)
  then have "i < size0 E" using iz by (simp add: nat_less_iff)
  then show ?thesis using wf by (rule length_row2 [rotated])
qed

lemma sizes_lookup_tensor:
  "size0 (lookup_tensor E w) = size0 w" "size1 (lookup_tensor E w) = size1 w * size1 E"
  "dtype (lookup_tensor E w) = dtype E"
  by (simp_all add: lookup_tensor_def)

lemma wf_lookup_tensor:
  "wf_tensor2 E \<Longrightarrow> wf_tensor2 w \<Longrightarrow> valid_indices E w \<Longrightarrow> wf_tensor2 (lookup_tensor E w)"
proof -
  assume wf: "wf_tensor2 E" and wfw: "wf_tensor2 w" and v: "valid_indices E w"
  have "length (concat (map (row2 E) (map nat (data2 w)))) = length (map nat (data2 w)) * size1 E"
    by (rule length_concat_uniform) (rule valid_row_length [OF wf v])
  then show ?thesis using wfw by (simp add: wf_tensor2_def lookup_tensor_def)
qed

lemma row2_lookup_tensor:
  assumes wf: "wf_tensor2 E" and wfw: "wf_tensor2 w" and v: "valid_indices E w"
    and b: "b < size0 w"
  shows "row2 (lookup_tensor E w) b = concat (map (\<lambda>i. row2 E (nat i)) (row2 w b))"
proof -
  let ?ks = "map nat (data2 w)"
  have "take (size1 w * size1 E) (drop (b * size1 w * size1 E) (concat (map (row2 E) ?ks)))
        = concat (map (row2 E) (take (size1 w) (drop (b * size1 w) ?ks)))"
    by (rule slice_concat_uniform) (rule valid_row_length [OF wf v])
  then show ?thesis
    by (simp add: row2_def lookup_tensor_def take_map drop_map comp_def mult.assoc)
qed

lemma row2_lookup_tensor_spec:
  assumes wf: "wf_tensor2 E" and wfw: "wf_tensor2 w" and v: "valid_indices E w"
    and b: "b < size0 w"
  shows "row2 (lookup_tensor E w) b = lookup_row_spec E w b"
  by (simp add: row2_lookup_tensor [OF assms] row2_as_get2 [OF wfw b] lookup_row_spec_def comp_def)

lemma embedding_lookup_frame: "snd (embedding_lookup m w) = m"
  by (simp add: embedding_lookup_def split: sum.splits)

lemma view_rows_error: "view_rows x = Inl e \<Longrightarrow> e = RuntimeError"
  by (auto simp: view_rows_def infer_size_def split: if_splits sum.splits)

lemma index_rows_error: "index_rows E w = Inl e \<Longrightarrow> e = IndexError"
  by (auto simp: index_rows_def split: sum.splits dest: wrap_indices_error)

lemma index_rows_accepts:
  "index_rows E w = Inr x \<Longrightarrow>
   list_all (\<lambda>i. - int (size0 E) \<le> i \<and> i < int (size0 E)) (data2 w)"
  by (auto simp: index_rows_def split: sum.splits dest: wrap_indices_accepts)

lemma embedding_lookup_Inr:
  "fst (embedding_lookup m w) = Inr x \<Longrightarrow> \<exists>y. index_rows (embeddings m) w = Inr y"
  by (auto simp: embedding_lookup_def split: sum.splits)

lemma embedding_lookup_valid_error:
  "valid_indices (embeddings m) w \<Longrightarrow> fst (embedding_lookup m w) = Inl e \<Longrightarrow> e = RuntimeError"
  by (auto simp: embedding_lookup_def index_rows_valid dest: view_rows_error)

lemma embedding_lookup_errors:
  "fst (embedding_lookup m w) = Inl e \<Longrightarrow> e = IndexError \<or> e = RuntimeError"
  by (auto simp: embedding_lookup_def split: sum.splits
      dest: index_rows_error view_rows_error)

lemma embedding_lookup_reads_embeddings:
  "embeddings m1 = embeddings m2 \<Longrightarrow> fst (embedding_lookup m1 w) = fst (embedding_lookup m2 w)"
  by (simp add: embedding_lookup_def split: sum.splits)

lemma set_row2: "set (row2 t i) \<subseteq> set (data2 t)"
  unfolding row2_def by (meson set_take_subset set_drop_subset subset_trans)

lemma set_lookup_tensor: "set (data2 (lookup_tensor E w)) \<subseteq> set (data2 E)"
  using set_row2 [of E] by (auto simp: lookup_tensor_def)

subsection \<open>The order of accumulation\<close>








text \<open>
  In an arithmetic without rounding, every plan that uses each product once gives the sum
  of the products: there the matrix product does not depend on the library.
\<close>

lemma accumulate_exact:
  fixes f g :: "nat \<Rightarrow> 'a::comm_semiring_0"
  shows "accumulate (\<lambda>a b c. a * b + c) f g p = sum_list (map (\<lambda>k. f k * g k) (plan_terms p))"
  by (induction p) (simp_all add: add.commute)

lemma entry_exact:
  fixes f g :: "nat \<Rightarrow> 'a::comm_semiring_0"
  assumes "backend_ok lib" and "fma lib = (\<lambda>a b c. a * b + c)"
  shows "entry lib n K m i j f g = (\<Sum>k<K. f k * g k)"
proof -
  have c: "covers K (plan_of lib n K m i j)"
    using assms(1) by (simp add: backend_ok_def)
  have "entry lib n K m i j f g
        = sum_list (map (\<lambda>k. f k * g k) (plan_terms (plan_of lib n K m i j)))"
    by (simp add: entry_def assms(2) accumulate_exact)
  also have "\<dots> = (\<Sum>k\<in>set (plan_terms (plan_of lib n K m i j)). f k * g k)"
    using c by (simp add: covers_def sum_list_distinct_conv_sum_set)
  finally show ?thesis using c by (simp add: covers_def)
qed

subsection \<open>The layers and forward\<close>

lemma promote_same: "promote d d = d"
  by (cases d) (simp_all add: promote_def)

lemma sizes_relu:
  "size0 (relu x) = size0 x" "size1 (relu x) = size1 x" "dtype (relu x) = dtype x"
  by (simp_all add: relu_def)

lemma wf_relu: "wf_tensor2 x \<Longrightarrow> wf_tensor2 (relu x)"
  by (simp add: wf_tensor2_def relu_def)

lemma get2_relu:
  "wf_tensor2 x \<Longrightarrow> i < size0 x \<Longrightarrow> j < size1 x \<Longrightarrow> get2 (relu x) i j = relu1 (get2 x i j)"
  using flat_index_bound [of i "size0 x" j "size1 x"]
  by (simp add: get2_def relu_def wf_tensor2_def)

lemma Dropout_forward_ok:
  assumes p: "prob_ok (dropout_p d)" and wf: "wf_tensor2 x"
  shows "\<exists>y. Dropout_forward d noise x = Inr y \<and> size0 y = size0 x \<and> size1 y = size1 x \<and>
             dtype y = dtype x \<and> wf_tensor2 y \<and>
             (\<forall>i j. i < size0 x \<longrightarrow> j < size1 x \<longrightarrow>
                get2 y i j = dropout1 d (noise (i * size1 x + j)) (get2 x i j))"
proof -
  have nth: "\<And>i j. i < size0 x \<Longrightarrow> j < size1 x \<Longrightarrow> i * size1 x + j < length (data2 x)"
    using wf flat_index_bound by (simp add: wf_tensor2_def)
  show ?thesis
    using p wf nth
    by (auto simp: Dropout_forward_def prob_ok_def dropout1_def get2_def wf_tensor2_def Let_def)
qed

lemma Dropout_forward_table:
  assumes p: "prob_ok (dropout_p d)" and wf: "wf_tensor2 x"
  shows "Dropout_forward d noise x =
           Inr (mk2 (dtype x) (size0 x) (size1 x)
                  (\<lambda>i j. dropout1 d (noise (i * size1 x + j)) (get2 x i j)))"
proof -
  obtain y where y: "Dropout_forward d noise x = Inr y"
    and s: "size0 y = size0 x" "size1 y = size1 x" "dtype y = dtype x" and wfy: "wf_tensor2 y"
    and e: "\<forall>i j. i < size0 x \<longrightarrow> j < size1 x \<longrightarrow>
                get2 y i j = dropout1 d (noise (i * size1 x + j)) (get2 x i j)"
    using Dropout_forward_ok [OF p wf] by blast
  have "y = mk2 (dtype x) (size0 x) (size1 x)
                  (\<lambda>i j. dropout1 d (noise (i * size1 x + j)) (get2 x i j))"
    using wfy wf_mk2
  proof (rule tensor2_eqI)
    fix i j assume "i < size0 y" and "j < size1 y"
    then show "get2 y i j = get2 (mk2 (dtype x) (size0 x) (size1 x)
                  (\<lambda>i j. dropout1 d (noise (i * size1 x + j)) (get2 x i j))) i j"
      using e s by (simp add: get2_mk2)
  qed (simp_all add: sizes_mk2 s)
  then show ?thesis using y by simp
qed

lemma relu_mk2: "relu (mk2 d n m f) = mk2 d n m (\<lambda>i j. relu1 (f i j))"
  by (simp add: relu_def mk2_def map_concat comp_def)

lemma matmul_ok:
  "size1 x = size0 W \<Longrightarrow> dtype x = dtype W \<Longrightarrow>
   matmul lib x W =
     Inr (mk2 (dtype x) (size0 x) (size1 W)
            (\<lambda>i j. entry lib (size0 x) (size1 x) (size1 W) i j
                     (\<lambda>k. get2 x i k) (\<lambda>k. get2 W k j)))"
  by (simp add: matmul_def)

lemma matmul_dtype_mismatch: "dtype x \<noteq> dtype W \<Longrightarrow> matmul lib x W = Inl RuntimeError"
  by (simp add: matmul_def)

lemma add_bias_ok:
  "size1 x = length (data1 b) \<Longrightarrow>
   add_bias x b =
     Inr (mk2 (promote (dtype x) (dtype1 b)) (size0 x) (size1 x)
            (\<lambda>i j. get2 x i j + data1 b ! j))"
proof -
  assume eq: "size1 x = length (data1 b)"
  have "mk2 (promote (dtype x) (dtype1 b)) (size0 x) (size1 x)
          (\<lambda>i j. get2 x i (if size1 x = 1 then 0 else j)
                 + data1 b ! (if length (data1 b) = 1 then 0 else j))
        = mk2 (promote (dtype x) (dtype1 b)) (size0 x) (size1 x)
            (\<lambda>i j. get2 x i j + data1 b ! j)"
    by (rule mk2_cong) (use eq in auto)
  then show ?thesis using eq by (simp add: add_bias_def Let_def)
qed

lemma affine_table:
  assumes "size1 x = size0 W" and "dtype x = dtype W" and "length (data1 b) = size1 W"
    and "dtype1 b = dtype W"
  shows "\<exists>xw. matmul lib x W = Inr xw \<and>
          add_bias xw b =
            Inr (mk2 (dtype x) (size0 x) (size1 W)
                   (\<lambda>i j. entry lib (size0 x) (size1 x) (size1 W) i j
                            (\<lambda>k. get2 x i k) (\<lambda>k. get2 W k j)
                          + data1 b ! j))"
proof -
  let ?xw = "mk2 (dtype x) (size0 x) (size1 W)
            (\<lambda>i j. entry lib (size0 x) (size1 x) (size1 W) i j
                     (\<lambda>k. get2 x i k) (\<lambda>k. get2 W k j))"
  have mm: "matmul lib x W = Inr ?xw"
    by (rule matmul_ok [OF assms(1,2)])
  have "add_bias ?xw b =
          Inr (mk2 (promote (dtype ?xw) (dtype1 b)) (size0 ?xw) (size1 ?xw)
                 (\<lambda>i j. get2 ?xw i j + data1 b ! j))"
    by (rule add_bias_ok) (simp add: sizes_mk2 assms(3))
  also have "mk2 (promote (dtype ?xw) (dtype1 b)) (size0 ?xw) (size1 ?xw)
                 (\<lambda>i j. get2 ?xw i j + data1 b ! j)
        = mk2 (dtype x) (size0 x) (size1 W)
                 (\<lambda>i j. get2 ?xw i j + data1 b ! j)"
    by (simp add: sizes_mk2 assms(2,4) promote_same)
  also have "\<dots> = mk2 (dtype x) (size0 x) (size1 W)
                   (\<lambda>i j. entry lib (size0 x) (size1 x) (size1 W) i j
                            (\<lambda>k. get2 x i k) (\<lambda>k. get2 W k j)
                          + data1 b ! j)"
    by (rule mk2_cong) (simp add: get2_mk2)
  finally show ?thesis using mm by blast
qed

lemma sizes_hidden_spec:
  "size0 (hidden_spec lib m x) = size0 x" "size1 (hidden_spec lib m x) = hidden_size m"
  "dtype (hidden_spec lib m x) = dtype x" "wf_tensor2 (hidden_spec lib m x)"
  by (simp_all add: hidden_spec_def sizes_mk2 wf_mk2)

lemma sizes_dropped_spec:
  "size0 (dropped_spec lib m noise x) = size0 x"
  "size1 (dropped_spec lib m noise x) = hidden_size m"
  "dtype (dropped_spec lib m noise x) = dtype x" "wf_tensor2 (dropped_spec lib m noise x)"
  by (simp_all add: dropped_spec_def sizes_mk2 wf_mk2 Let_def)

lemma sizes_logits_spec:
  "size0 (logits_spec lib m noise x) = size0 x" "size1 (logits_spec lib m noise x) = n_classes m"
  "dtype (logits_spec lib m noise x) = dtype x" "wf_tensor2 (logits_spec lib m noise x)"
  by (simp_all add: logits_spec_def sizes_mk2 wf_mk2 Let_def)

lemma dropped_spec_dropout1:
  "dropped_spec lib m noise x =
     mk2 (dtype x) (size0 x) (hidden_size m)
       (\<lambda>b j. dropout1 (dropout m) (noise (b * hidden_size m + j))
                 (get2 (hidden_spec lib m x) b j))"
  by (simp add: dropped_spec_def dropout1_def Let_def)

lemma forward_of_lookup:
  assumes inv: "ParserModel_inv m"
    and look: "embedding_lookup m w = (Inr x, m)"
    and sx: "size1 x = n_features m * embed_size m"
    and dt: "dtype x = dtype (embed_to_hidden_weight m)"
  shows "forward lib m noise w = (Inr (logits_spec lib m noise x), m)"
proof -
  let ?W1 = "embed_to_hidden_weight m" and ?b1 = "embed_to_hidden_bias m"
  let ?W2 = "hidden_to_logits_weight m" and ?b2 = "hidden_to_logits_bias m"
  have s1: "size1 x = size0 ?W1"
    using inv sx by (simp add: ParserModel_inv_def mult.commute)
  have h1: "size1 ?W1 = hidden_size m" and lb1: "length (data1 ?b1) = size1 ?W1"
    and db1: "dtype1 ?b1 = dtype ?W1" and s2: "size0 ?W2 = hidden_size m"
    and c2: "size1 ?W2 = n_classes m" and d2: "dtype ?W2 = dtype ?W1"
    and lb2: "length (data1 ?b2) = size1 ?W2" and db2: "dtype1 ?b2 = dtype ?W2"
    and p: "prob_ok (dropout_p (dropout m))"
    using inv by (simp_all add: ParserModel_inv_def)
  obtain xw where mm1: "matmul lib x ?W1 = Inr xw"
    and ab1: "add_bias xw ?b1 =
            Inr (mk2 (dtype x) (size0 x) (size1 ?W1)
                   (\<lambda>i j. entry lib (size0 x) (size1 x) (size1 ?W1) i j
                            (\<lambda>k. get2 x i k) (\<lambda>k. get2 ?W1 k j)
                          + data1 ?b1 ! j))"
    using affine_table [OF s1 dt lb1 db1] by blast
  have h: "relu (mk2 (dtype x) (size0 x) (size1 ?W1)
                   (\<lambda>i j. entry lib (size0 x) (size1 x) (size1 ?W1) i j
                            (\<lambda>k. get2 x i k) (\<lambda>k. get2 ?W1 k j)
                          + data1 ?b1 ! j)) = hidden_spec lib m x"
    by (simp add: relu_mk2 hidden_spec_def h1)
  let ?h = "hidden_spec lib m x" and ?d = "dropped_spec lib m noise x"
  have dr: "Dropout_forward (dropout m) noise ?h = Inr ?d"
    using Dropout_forward_table [OF p sizes_hidden_spec(4) [of lib m x], where noise = noise]
    by (simp add: sizes_hidden_spec dropped_spec_dropout1)
  obtain dw where mm2: "matmul lib ?d ?W2 = Inr dw"
    and ab2: "add_bias dw ?b2 =
            Inr (mk2 (dtype ?d) (size0 ?d) (size1 ?W2)
                   (\<lambda>i j. entry lib (size0 ?d) (size1 ?d) (size1 ?W2) i j
                            (\<lambda>k. get2 ?d i k) (\<lambda>k. get2 ?W2 k j)
                          + data1 ?b2 ! j))"
    using affine_table [of ?d ?W2 ?b2 lib] s2 d2 dt lb2 db2
    by (auto simp: sizes_dropped_spec)
  have out: "mk2 (dtype ?d) (size0 ?d) (size1 ?W2)
                   (\<lambda>i j. entry lib (size0 ?d) (size1 ?d) (size1 ?W2) i j
                            (\<lambda>k. get2 ?d i k) (\<lambda>k. get2 ?W2 k j)
                          + data1 ?b2 ! j) = logits_spec lib m noise x"
    by (simp add: logits_spec_def sizes_dropped_spec c2 Let_def)
  show ?thesis
    by (simp add: forward_def look mm1 ab1 h dr mm2 ab2 out)
qed

lemma forward_dtype_mismatch:
  assumes look: "embedding_lookup m w = (Inr x, m)"
    and dt: "dtype x \<noteq> dtype (embed_to_hidden_weight m)"
  shows "forward lib m noise w = (Inl RuntimeError, m)"
  by (simp add: forward_def look matmul_dtype_mismatch [OF dt])

lemma forward_lookup_error:
  "embedding_lookup m w = (Inl e, m') \<Longrightarrow> forward lib m noise w = (Inl e, m')"
  by (simp add: forward_def)

lemma forward_frame: "snd (forward lib m noise w) = m"
proof -
  obtain r where r: "embedding_lookup m w = (r, m)"
    using embedding_lookup_frame [of m w] by (cases "embedding_lookup m w") simp
  show ?thesis
    by (simp add: forward_def r split: sum.splits)
qed

lemma forward_valid:
  assumes inv: "ParserModel_inv m" and v: "valid_input m w" and b: "0 < size0 w"
    and dt: "embeddings_match m"
  shows "forward lib m noise w =
           (Inr (logits_spec lib m noise (lookup_tensor (embeddings m) w)), m)"
proof -
  have vi: "valid_indices (embeddings m) w" and f: "size1 w = n_features m"
    using v by (simp_all add: valid_input_def)
  have "size1 (embeddings m) = embed_size m"
    using inv by (simp add: ParserModel_inv_def)
  then have "size1 (lookup_tensor (embeddings m) w) = n_features m * embed_size m"
    using f by (simp add: sizes_lookup_tensor)
  moreover have "dtype (lookup_tensor (embeddings m) w) = dtype (embed_to_hidden_weight m)"
    using dt by (simp add: sizes_lookup_tensor embeddings_match_def)
  ultimately show ?thesis
    using forward_of_lookup [OF inv embedding_lookup_valid [OF vi b]] by simp
qed

lemma forward_valid_mismatch:
  assumes v: "valid_input m w" and b: "0 < size0 w" and dt: "\<not> embeddings_match m"
  shows "forward lib m noise w = (Inl RuntimeError, m)"
proof -
  have vi: "valid_indices (embeddings m) w"
    using v by (simp add: valid_input_def)
  have "dtype (lookup_tensor (embeddings m) w) \<noteq> dtype (embed_to_hidden_weight m)"
    using dt by (simp add: sizes_lookup_tensor embeddings_match_def)
  then show ?thesis
    by (rule forward_dtype_mismatch [OF embedding_lookup_valid [OF vi b]])
qed

subsection \<open>The constructor and the checks\<close>

lemma ParserModel_init_fields:
  assumes "ParserModel_init E nf hs nc p u1 u2 u3 u4 = Inr m"
  shows "embeddings m = E" and "n_features m = nf" and "n_classes m = nc"
    and "hidden_size m = hs" and "embed_size m = size1 E" and "dropout_prob m = p"
    and "dropout m = \<lparr>dropout_p = p, training = True\<rparr>" and "prob_ok p"
    and "dtype (embed_to_hidden_weight m) = Float32"
  using assms
  by (auto simp: ParserModel_init_def Dropout_init_def prob_ok_def Let_def split: if_splits)

lemma ParserModel_init_inv:
  assumes "ParserModel_init E nf hs nc p u1 u2 u3 u4 = Inr m" and "wf_tensor2 E"
  shows "ParserModel_inv m"
  using assms
  by (auto simp: ParserModel_init_def Dropout_init_def prob_ok_def Let_def ParserModel_inv_def
      wf_tensor2_def split: if_splits)

lemma ParserModel_init_ok:
  "prob_ok p \<Longrightarrow> \<exists>m. ParserModel_init E nf hs nc p u1 u2 u3 u4 = Inr m"
  by (simp add: ParserModel_init_def Dropout_init_def prob_ok_def Let_def)

lemma wf_zeros2: "wf_tensor2 (zeros2 d n m)"
  by (simp add: wf_tensor2_def zeros2_def)

lemma lookup_zeros:
  "list_all (\<lambda>v. v = 0) (data2 (lookup_tensor (zeros2 d n k) w))"
  using set_lookup_tensor [of "zeros2 d n k" w]
  by (auto simp: list_all_iff zeros2_def)

lemma randint_shape:
  "randint_0_100_4_36 t \<Longrightarrow> wf_tensor2 t \<and> size0 t = 4 \<and> size1 t = 36"
  by (simp add: randint_0_100_4_36_def wf_tensor2_def)

lemma randint_valid:
  "randint_0_100_4_36 t \<Longrightarrow> size0 E = 100 \<Longrightarrow> valid_indices E t"
  by (simp add: randint_0_100_4_36_def valid_indices_def)

lemma check_embedding_zeros:
  assumes E: "embeddings model = zeros2 Float32 100 30" and r: "randint_0_100_4_36 inds"
  shows "embedding_lookup model inds = (Inr (lookup_tensor (zeros2 Float32 100 30) inds), model)"
    and "check_embedding model inds = (Inr (), model)"
proof -
  have v: "valid_indices (embeddings model) inds"
    using r by (rule randint_valid) (simp add: E zeros2_def)
  have b: "0 < size0 inds"
    using randint_shape [OF r] by simp
  show l: "embedding_lookup model inds
             = (Inr (lookup_tensor (zeros2 Float32 100 30) inds), model)"
    using embedding_lookup_valid [OF v b] E by simp
  show "check_embedding model inds = (Inr (), model)"
    by (simp add: check_embedding_def l lookup_zeros)
qed

lemma default_model_facts:
  assumes "ParserModel_default (zeros2 Float32 100 30) u1 u2 u3 u4 = Inr model"
  shows "ParserModel_inv model" and "embeddings model = zeros2 Float32 100 30"
    and "n_features model = 36" and "n_classes model = 3" and "embeddings_match model"
proof -
  note i = assms [unfolded ParserModel_default_def]
  show "ParserModel_inv model" using i wf_zeros2 by (rule ParserModel_init_inv)
  show e: "embeddings model = zeros2 Float32 100 30" using i by (rule ParserModel_init_fields)
  show "n_features model = 36" using i by (rule ParserModel_init_fields)
  show "n_classes model = 3" using i by (rule ParserModel_init_fields)
  show "embeddings_match model"
    using ParserModel_init_fields(9) [OF i] e by (simp add: embeddings_match_def zeros2_def)
qed

lemma default_model_input:
  assumes "ParserModel_default (zeros2 Float32 100 30) u1 u2 u3 u4 = Inr model"
    and r: "randint_0_100_4_36 t"
  shows "valid_input model t"
proof -
  have "valid_indices (embeddings model) t"
    using r by (rule randint_valid) (simp add: default_model_facts [OF assms(1)] zeros2_def)
  then show ?thesis
    using randint_shape [OF r] default_model_facts [OF assms(1)] by (simp add: valid_input_def)
qed

subsection \<open>The examples\<close>

lemma example_inv: "ParserModel_inv example_model"
  by (simp add: ParserModel_inv_def example_model_def wf_tensor2_def prob_ok_def)

lemma example_match: "embeddings_match example_model"
  by (simp add: embeddings_match_def example_model_def)



lemma example_input_valid: "valid_input example_model example_input"
  by (simp add: valid_input_def valid_indices_def example_model_def example_input_def
      wf_tensor2_def)



lemma example_empty_valid: "valid_input example_model empty_batch"
  by (simp add: valid_input_def valid_indices_def example_model_def empty_batch_def
      wf_tensor2_def)

lemma example_lookup:
  "embedding_lookup example_model example_input =
     (Inr \<lparr>size0 = 2, size1 = 4, data2 = [1, 2, 3, 4, 5, 6, 1, 2], dtype = Float32\<rparr>,
      example_model)"
  by (simp add: embedding_lookup_def index_rows_def wrap_index_def view_rows_def infer_size_def
      row2_def example_model_def example_input_def)

lemma example_forward:
  "fst (forward example_backend example_model even example_input) =
     Inr \<lparr>size0 = 2, size1 = 2, data2 = [1, 0, 9, 16], dtype = Float32\<rparr>"
  by code_simp

lemma half_ok: "prob_ok (1 / (1 + 1) :: real)"
  by (simp add: prob_ok_def)

lemma replicate_randint:
  "randint_0_100_4_36 \<lparr>size0 = 4, size1 = 36, data2 = replicate 144 7\<rparr>"
  by (simp add: randint_0_100_4_36_def list_all_iff)

lemma example_draws_randint: "randint_0_100_4_36 (randint_inds example_draws)"
  by (simp add: example_draws_def replicate_randint)

section \<open>C1: forward is the pipeline\<close>

text \<open>
  C1. For a model with the sizes its constructor gives it and an index tensor of shape
  (batch_size, n_features) with valid indices, forward returns what the pipeline returns:
  the lookup, then entry by entry ReLU of the first affine layer, dropout, and the second
  affine layer, with nothing applied after it. Where the lookup raises, forward raises the
  same error; and where the lookup returns a tensor whose dtype is not the dtype of the
  first layer's weight, the matrix product and with it forward raise RuntimeError.
\<close>

theorem forward_is_pipeline:
  assumes "ParserModel_inv m" and "valid_input m w"
  shows "fst (forward lib m noise w) =
           (case fst (embedding_lookup m w) of
              Inl e \<Rightarrow> Inl e
            | Inr x \<Rightarrow> pipeline_spec lib m noise x)"
proof (cases "size0 w = 0")
  case True
  have "embedding_lookup m w = (Inl RuntimeError, m)"
    using assms(2) True by (simp add: embedding_lookup_empty valid_input_def)
  then show ?thesis by (simp add: forward_lookup_error)
next
  case False
  then have b: "0 < size0 w" by simp
  have l: "embedding_lookup m w = (Inr (lookup_tensor (embeddings m) w), m)"
    using assms(2) b by (simp add: embedding_lookup_valid valid_input_def)
  show ?thesis
  proof (cases "embeddings_match m")
    case True
    then show ?thesis
      using l forward_valid [OF assms b True, of lib noise]
      by (simp add: pipeline_spec_def sizes_lookup_tensor embeddings_match_def)
  next
    case False
    then show ?thesis
      using l forward_valid_mismatch [OF assms(2) b False, of lib noise]
      by (simp add: pipeline_spec_def sizes_lookup_tensor embeddings_match_def)
  qed
qed

theorem forward_is_pipeline_witness:
  "ParserModel_inv example_model \<and> valid_input example_model example_input \<and>
   fst (forward example_backend example_model even example_input) =
     pipeline_spec example_backend example_model even
       \<lparr>size0 = 2, size1 = 4, data2 = [1, 2, 3, 4, 5, 6, 1, 2], dtype = Float32\<rparr> \<and>
   fst (forward example_backend example_model even example_input) =
     Inr \<lparr>size0 = 2, size1 = 2, data2 = [1, 0, 9, 16], dtype = Float32\<rparr>"
  using forward_is_pipeline [OF example_inv example_input_valid, of example_backend even]
  by (simp add: example_inv example_input_valid example_lookup example_forward)

section \<open>C8: the methods do not write to the model\<close>

text \<open>
  C8. Neither method writes to the model: the model that embedding_lookup returns, and the
  model that forward returns, is the model it was called on, with every parameter and every
  field as before, whether the call returns a tensor or raises.
\<close>

theorem methods_leave_model_unchanged:
  "snd (embedding_lookup m w) = m \<and> snd (forward lib m noise w) = m"
proof
  show "snd (embedding_lookup m w) = m"
    by (simp add: embedding_lookup_def split: sum.splits)
  show "snd (forward lib m noise w) = m"
    by (rule forward_frame)
qed

section \<open>C2: what the lookup returns\<close>

text \<open>
  For a batch of at least one row the lookup does what its docstring says: for an index
  tensor of shape (batch_size, n_features) with every entry in [0, num_words), it returns a
  tensor of shape (batch_size, n_features * embed_size) whose row b is the concatenation of
  the embedding rows selected by w[b][0], ..., w[b][n_features - 1].
\<close>

lemma embedding_lookup_rows:
  assumes "ParserModel_inv m" and "valid_input m w" and "0 < size0 w"
  shows "\<exists>x. fst (embedding_lookup m w) = Inr x \<and>
             size0 x = size0 w \<and> size1 x = n_features m * embed_size m \<and> wf_tensor2 x \<and>
             (\<forall>b < size0 w. row2 x b = lookup_row_spec (embeddings m) w b)"
proof -
  let ?E = "embeddings m"
  have wfE: "wf_tensor2 ?E" and es: "size1 ?E = embed_size m"
    using assms(1) by (simp_all add: ParserModel_inv_def)
  have wfw: "wf_tensor2 w" and f: "size1 w = n_features m" and vi: "valid_indices ?E w"
    using assms(2) by (simp_all add: valid_input_def)
  have "fst (embedding_lookup m w) = Inr (lookup_tensor ?E w)"
    by (simp add: embedding_lookup_valid [OF vi assms(3)])
  moreover have "size0 (lookup_tensor ?E w) = size0 w"
    and "size1 (lookup_tensor ?E w) = n_features m * embed_size m"
    by (simp_all add: sizes_lookup_tensor f es)
  moreover have "wf_tensor2 (lookup_tensor ?E w)"
    by (rule wf_lookup_tensor [OF wfE wfw vi])
  moreover have "\<forall>b < size0 w. row2 (lookup_tensor ?E w) b = lookup_row_spec ?E w b"
    by (simp add: row2_lookup_tensor_spec [OF wfE wfw vi])
  ultimately show ?thesis by blast
qed

lemma embedding_lookup_rows_example:
  "\<exists>x. fst (embedding_lookup example_model example_input) = Inr x \<and>
        size0 x = 2 \<and> size1 x = 4 \<and>
        row2 x 0 = [1, 2, 3, 4] \<and> row2 x 1 = [5, 6, 1, 2]"
  by (simp add: example_lookup row2_def)

text \<open>
  C2. The claim is the contract of the docstring, (batch_size, n_features) to
  (batch_size, n_features * embed_size), for every batch size. The code does not keep it for
  batch size 0: for the index tensor of shape (0, 2), whose indices are all valid since it
  has none, the lookup does not return a tensor of shape (0, 4) but raises, because
  \<^verbatim>\<open>view(0, -1)\<close> cannot infer the second size.
\<close>

theorem embedding_lookup_empty_batch_raises:
  "ParserModel_inv example_model \<and> valid_input example_model empty_batch \<and>
   size0 empty_batch = 0 \<and>
   fst (embedding_lookup example_model empty_batch) = Inl RuntimeError"
  by code_simp

section \<open>C9: indices in range are accepted\<close>

text \<open>
  C9, as the claim states it, fails in its first half: embedding_lookup is defined for more
  than the index tensors with every entry in [0, num_words). The index tensor [[-1, 0]] has
  an entry outside that range, and the lookup returns a tensor for it: the library counts a
  negative index from the end.
\<close>

theorem lookup_negative_index_counterexample:
  "\<not> valid_indices (embeddings example_model) \<lparr>size0 = 1, size1 = 2, data2 = [- 1, 0]\<rparr> \<and>
   fst (embedding_lookup example_model \<lparr>size0 = 1, size1 = 2, data2 = [- 1, 0]\<rparr>) =
     Inr \<lparr>size0 = 1, size1 = 4, data2 = [5, 6, 1, 2], dtype = Float32\<rparr>"
  by code_simp

text \<open>
  C9, amended. embedding_lookup is defined only when every entry of w is an index that the
  library accepts for the embedding matrix, that is, an entry in [-num_words, num_words).
  Indexing a row is total with an error branch: an index in [0, num_words) is accepted and
  selects that row, and when every entry of w is such an index, the indexing step
  \<^verbatim>\<open>self.embeddings[w]\<close> returns a tensor and embedding_lookup does not raise IndexError.
\<close>

theorem lookup_index_branch_unreachable:
  "(0 \<le> i \<and> i < int (size0 (embeddings m)) \<longrightarrow>
      wrap_index (size0 (embeddings m)) i = Inr (nat i)) \<and>
   (valid_indices (embeddings m) w \<longrightarrow>
      (\<exists>x. index_rows (embeddings m) w = Inr x) \<and>
      fst (embedding_lookup m w) \<noteq> Inl IndexError) \<and>
   ((\<exists>x. fst (embedding_lookup m w) = Inr x) \<longrightarrow>
      list_all (\<lambda>i. - int (size0 (embeddings m)) \<le> i \<and> i < int (size0 (embeddings m)))
        (data2 w))"
proof (intro conjI impI)
  assume "0 \<le> i \<and> i < int (size0 (embeddings m))"
  then show "wrap_index (size0 (embeddings m)) i = Inr (nat i)"
    by (simp add: wrap_index_def)
next
  assume "valid_indices (embeddings m) w"
  then show "\<exists>x. index_rows (embeddings m) w = Inr x"
    by (simp add: index_rows_valid)
next
  assume "valid_indices (embeddings m) w"
  then show "fst (embedding_lookup m w) \<noteq> Inl IndexError"
    using embedding_lookup_valid_error by fastforce
next
  assume "\<exists>x. fst (embedding_lookup m w) = Inr x"
  then obtain y where "index_rows (embeddings m) w = Inr y"
    using embedding_lookup_Inr by blast
  then show "list_all (\<lambda>i. - int (size0 (embeddings m)) \<le> i \<and> i < int (size0 (embeddings m)))
               (data2 w)"
    by (rule index_rows_accepts)
qed

theorem lookup_index_branch_unreachable_witness:
  "(0 \<le> (2::int) \<and> (2::int) < int (size0 (embeddings example_model))) \<and>
   wrap_index (size0 (embeddings example_model)) 2 = Inr 2 \<and>
   valid_indices (embeddings example_model) example_input \<and>
   (\<exists>x. index_rows (embeddings example_model) example_input = Inr x) \<and>
   fst (embedding_lookup example_model example_input) \<noteq> Inl IndexError \<and>
   (\<exists>x. fst (embedding_lookup example_model example_input) = Inr x) \<and>
   list_all (\<lambda>i. - 3 \<le> i \<and> i < 3) (data2 example_input) \<and>
   fst (embedding_lookup example_model \<lparr>size0 = 1, size1 = 2, data2 = [0, 3]\<rparr>) = Inl IndexError"
proof -
  have r: "0 \<le> (2::int) \<and> (2::int) < int (size0 (embeddings example_model))"
    by (simp add: example_model_def)
  have v: "valid_indices (embeddings example_model) example_input"
    using example_input_valid by (simp add: valid_input_def)
  have l: "\<exists>x. fst (embedding_lookup example_model example_input) = Inr x"
    by (simp add: example_lookup)
  have s: "size0 (embeddings example_model) = 3" by (simp add: example_model_def)
  have e: "fst (embedding_lookup example_model \<lparr>size0 = 1, size1 = 2, data2 = [0, 3]\<rparr>)
           = Inl IndexError"
    by code_simp
  show ?thesis
    using lookup_index_branch_unreachable [of 2 example_model example_input] r v l e s
    by simp
qed

section \<open>C5: the embedding check passes\<close>

text \<open>
  C5. For the model that the constructor builds from the 100 by 30 all-zero float32
  embedding matrix (whatever the random initial parameters), and any tensor that
  \<^verbatim>\<open>torch.randint(0, 100, (4, 36))\<close> can return, embedding_lookup returns a tensor
  whose entries are all zero, and check_embedding returns without raising.
\<close>

theorem check_embedding_passes:
  assumes "ParserModel_default (zeros2 Float32 100 30) u1 u2 u3 u4 = Inr model"
    and "randint_0_100_4_36 inds"
  shows "\<exists>x. fst (embedding_lookup model inds) = Inr x \<and> list_all (\<lambda>v. v = 0) (data2 x) \<and>
             fst (check_embedding model inds) = Inr ()"
proof -
  have E: "embeddings model = zeros2 Float32 100 30"
    using assms(1) unfolding ParserModel_default_def by (rule ParserModel_init_fields)
  show ?thesis
    using check_embedding_zeros [OF E assms(2)] lookup_zeros by fastforce
qed

theorem check_embedding_passes_witness:
  "\<exists>model :: real ParserModel.
     ParserModel_default (zeros2 Float32 100 30) (\<lambda>k. 0) (\<lambda>k. 0) (\<lambda>k. 0) (\<lambda>k. 0) = Inr model \<and>
     randint_0_100_4_36 \<lparr>size0 = 4, size1 = 36, data2 = replicate 144 7\<rparr> \<and>
     fst (check_embedding model \<lparr>size0 = 4, size1 = 36, data2 = replicate 144 7\<rparr>) = Inr ()"
proof -
  obtain model :: "real ParserModel" where
    m: "ParserModel_default (zeros2 Float32 100 30) (\<lambda>k. 0) (\<lambda>k. 0) (\<lambda>k. 0) (\<lambda>k. 0) = Inr model"
    unfolding ParserModel_default_def using ParserModel_init_ok [OF half_ok] by blast
  show ?thesis
    using check_embedding_passes [OF m replicate_randint] m replicate_randint by blast
qed

section \<open>C3: the shape of the logits\<close>

lemma forward_shape_valid:
  assumes "ParserModel_inv m" and "valid_input m w" and "0 < size0 w" and "embeddings_match m"
  shows "\<exists>out. forward lib m noise w = (Inr out, m) \<and> size0 out = size0 w \<and>
               size1 out = n_classes m \<and> wf_tensor2 out"
  by (simp add: forward_valid [OF assms] sizes_logits_spec sizes_lookup_tensor)

lemma check_forward_default:
  assumes d: "ParserModel_default (zeros2 Float32 100 30) u1 u2 u3 u4 = Inr model"
    and r: "randint_0_100_4_36 inputs"
  shows "\<exists>out. forward lib model noise inputs = (Inr out, model) \<and> size0 out = 4 \<and>
               size1 out = 3"
    and "check_forward lib model noise inputs = (Inr (), model)"
proof -
  have b: "0 < size0 inputs" using randint_shape [OF r] by simp
  obtain out where out: "forward lib model noise inputs = (Inr out, model)"
    and s0: "size0 out = size0 inputs" and s1: "size1 out = n_classes model"
    using forward_shape_valid [OF default_model_facts(1) [OF d] default_model_input [OF d r] b
        default_model_facts(5) [OF d]]
    by blast
  have s: "size0 out = 4" "size1 out = 3"
    using s0 s1 randint_shape [OF r] default_model_facts [OF d] by simp_all
  show "\<exists>out. forward lib model noise inputs = (Inr out, model) \<and> size0 out = 4 \<and>
              size1 out = 3"
    using out s by blast
  show "check_forward lib model noise inputs = (Inr (), model)"
    by (simp add: check_forward_def out s)
qed

text \<open>
  C3, as the claim states it, fails for a model built from a \<^verbatim>\<open>float64\<close> array, the
  default dtype of numpy: the constructor keeps the dtype of the array and creates the layer
  parameters as \<^verbatim>\<open>float32\<close>, and the first matrix product refuses operands of two dtypes.
  For such a model forward returns no logits for a valid input with two rows.
\<close>

theorem forward_float64_embeddings_counterexample:
  "ParserModel_init example_array64 2 2 2 (1 / 2) (\<lambda>k. 1) (\<lambda>k. 1) (\<lambda>k. 1) (\<lambda>k. 1)
     = Inr example_model64 \<and>
   ParserModel_inv example_model64 \<and> valid_input example_model64 example_input \<and>
   size0 example_input = 2 \<and>
   fst (forward example_backend example_model64 even example_input) = Inl RuntimeError"
  by code_simp

text \<open>
  C3, amended. For a model with the sizes its constructor gives it, whose embedding matrix
  has the dtype of its layer parameters (float32 for a model that the constructor built),
  and an index tensor of shape (batch_size, n_features) with batch_size at least 1 and valid
  indices, forward returns a logits tensor of shape (batch_size, n_classes). In particular,
  for the model built from the (100, 30) float32 zero matrix with the default
  n_features = 36 and n_classes = 3, a (4, 36) input with entries in [0, 100) gives an
  output of shape (4, 3), and check_forward returns without raising.
\<close>

theorem forward_shape:
  "(ParserModel_inv m \<and> embeddings_match m \<and> valid_input m w \<and> 0 < size0 w \<longrightarrow>
      (\<exists>out. fst (forward lib m noise w) = Inr out \<and> size0 out = size0 w \<and>
             size1 out = n_classes m \<and> wf_tensor2 out)) \<and>
   (ParserModel_default (zeros2 Float32 100 30) u1 u2 u3 u4 = Inr model \<and>
    randint_0_100_4_36 inputs \<longrightarrow>
      (\<exists>out. fst (forward lib model noise' inputs) = Inr out \<and>
             (size0 out, size1 out) = (4, 3)) \<and>
      fst (check_forward lib model noise' inputs) = Inr ())"
proof (intro conjI impI)
  assume "ParserModel_inv m \<and> embeddings_match m \<and> valid_input m w \<and> 0 < size0 w"
  then show "\<exists>out. fst (forward lib m noise w) = Inr out \<and> size0 out = size0 w \<and>
               size1 out = n_classes m \<and> wf_tensor2 out"
    using forward_shape_valid [of m w lib noise] by fastforce
next
  assume a: "ParserModel_default (zeros2 Float32 100 30) u1 u2 u3 u4 = Inr model \<and>
             randint_0_100_4_36 inputs"
  then show "\<exists>out. fst (forward lib model noise' inputs) = Inr out \<and>
               (size0 out, size1 out) = (4, 3)"
    using check_forward_default(1) [of u1 u2 u3 u4 model inputs lib noise'] by fastforce
  show "fst (check_forward lib model noise' inputs) = Inr ()"
    using a check_forward_default(2) [of u1 u2 u3 u4 model inputs lib noise'] by simp
qed

theorem forward_shape_witness:
  "ParserModel_inv example_model \<and> embeddings_match example_model \<and>
   valid_input example_model example_input \<and> 0 < size0 example_input \<and>
   (\<exists>out. fst (forward example_backend example_model even example_input) = Inr out \<and>
          size0 out = 2 \<and> size1 out = 2) \<and>
   (\<exists>model :: real ParserModel.
      ParserModel_default (zeros2 Float32 100 30) (\<lambda>k. 0) (\<lambda>k. 0) (\<lambda>k. 0) (\<lambda>k. 0)
        = Inr model \<and>
      randint_0_100_4_36 \<lparr>size0 = 4, size1 = 36, data2 = replicate 144 7\<rparr> \<and>
      (\<exists>out. fst (forward example_backend model even
                    \<lparr>size0 = 4, size1 = 36, data2 = replicate 144 7\<rparr>) = Inr out \<and>
             (size0 out, size1 out) = (4, 3)) \<and>
      fst (check_forward example_backend model even
             \<lparr>size0 = 4, size1 = 36, data2 = replicate 144 7\<rparr>) = Inr ())"
proof -
  have b: "0 < size0 example_input" by (simp add: example_input_def)
  have s: "size0 example_input = 2" "n_classes example_model = 2"
    by (simp_all add: example_input_def example_model_def)
  obtain model :: "real ParserModel" where
    m: "ParserModel_default (zeros2 Float32 100 30) (\<lambda>k. 0) (\<lambda>k. 0) (\<lambda>k. 0) (\<lambda>k. 0)
          = Inr model"
    unfolding ParserModel_default_def using ParserModel_init_ok [OF half_ok] by blast
  note t = forward_shape [where m = example_model and w = example_input
      and lib = example_backend and noise = even and noise' = even
      and ?u1.0 = "\<lambda>k. 0" and ?u2.0 = "\<lambda>k. 0" and ?u3.0 = "\<lambda>k. 0" and ?u4.0 = "\<lambda>k. 0"
      and model = model and inputs = "\<lparr>size0 = 4, size1 = 36, data2 = replicate 144 7\<rparr>"]
  have 1: "\<exists>out. fst (forward example_backend example_model even example_input) = Inr out \<and>
          size0 out = 2 \<and> size1 out = 2"
    using t example_inv example_match example_input_valid b s by auto
  have 2: "(\<exists>out. fst (forward example_backend model even
                    \<lparr>size0 = 4, size1 = 36, data2 = replicate 144 7\<rparr>) = Inr out \<and>
             (size0 out, size1 out) = (4, 3)) \<and>
      fst (check_forward example_backend model even
             \<lparr>size0 = 4, size1 = 36, data2 = replicate 144 7\<rparr>) = Inr ()"
    using t m replicate_randint by blast
  show ?thesis
    using 1 2 m replicate_randint example_inv example_match example_input_valid b by blast
qed

section \<open>C6: the errors of the methods and of the checks\<close>

lemma matmul_error: "matmul lib x W = Inl e \<Longrightarrow> e = RuntimeError"
  by (simp add: matmul_def split: if_splits)

lemma add_bias_error: "add_bias x b = Inl e \<Longrightarrow> e = RuntimeError"
  by (simp add: add_bias_def Let_def split: if_splits)

lemma Dropout_forward_error: "Dropout_forward d noise x = Inl e \<Longrightarrow> e = ValueError"
  by (simp add: Dropout_forward_def Let_def split: if_splits)

lemma forward_errors:
  assumes "fst (forward lib m noise w) = Inl e"
  shows "e = IndexError \<or> e = RuntimeError \<or> e = ValueError"
proof -
  obtain r where r: "embedding_lookup m w = (r, m)"
    using embedding_lookup_frame [of m w] by (cases "embedding_lookup m w") simp
  show ?thesis
  proof (cases r)
    case (Inl e')
    then have "e' = e" using assms r by (simp add: forward_def)
    then show ?thesis using embedding_lookup_errors [of m w e] r Inl by auto
  next
    case (Inr x)
    then show ?thesis
      using assms r
      by (auto simp: forward_def split: sum.splits
          dest: matmul_error add_bias_error Dropout_forward_error)
  qed
qed

lemma check_embedding_assert:
  "fst (check_embedding m inds) = Inl AssertionError \<longleftrightarrow>
     (\<exists>x. fst (embedding_lookup m inds) = Inr x \<and> \<not> list_all (\<lambda>v. v = 0) (data2 x))"
proof -
  obtain r where r: "embedding_lookup m inds = (r, m)"
    using embedding_lookup_frame [of m inds] by (cases "embedding_lookup m inds") simp
  show ?thesis
    using embedding_lookup_errors [of m inds AssertionError] r
    by (cases r) (auto simp: check_embedding_def)
qed

lemma check_forward_assert:
  "fst (check_forward lib m noise inputs) = Inl AssertionError \<longleftrightarrow>
     (\<exists>out. fst (forward lib m noise inputs) = Inr out \<and> (size0 out, size1 out) \<noteq> (4, 3))"
proof -
  obtain r where r: "forward lib m noise inputs = (r, m)"
    using forward_frame [of lib m noise inputs] by (cases "forward lib m noise inputs") simp
  show ?thesis
    using forward_errors [of lib m noise inputs AssertionError] r
    by (cases r) (auto simp: check_forward_def)
qed

text \<open>
  C6, as the claim states it, fails for a model built from a \<^verbatim>\<open>float64\<close> array: the
  indices are in range and the shape of the input agrees with the model, the lookup returns
  normally, and forward raises, because the matrix product refuses the \<^verbatim>\<open>float64\<close> lookup
  with the \<^verbatim>\<open>float32\<close> weight.
\<close>

theorem forward_raises_on_valid_input_counterexample:
  "valid_indices (embeddings example_model64) example_input \<and>
   size1 example_input = n_features example_model64 \<and> wf_tensor2 example_input \<and>
   fst (embedding_lookup example_model64 example_input) =
     Inr \<lparr>size0 = 2, size1 = 4, data2 = [1, 2, 3, 4, 5, 6, 1, 2], dtype = Float64\<rparr> \<and>
   fst (forward example_backend example_model64 even example_input) = Inl RuntimeError"
  by code_simp

text \<open>
  C6, amended. For a model whose embedding matrix has the dtype of its layer parameters, and
  an index tensor of shape (batch_size, n_features) with batch_size at least 1 and all
  indices in range, embedding_lookup and forward return normally. Neither method raises
  AssertionError. check_embedding raises AssertionError exactly when the lookup returned a
  tensor with a non-zero element, and check_forward raises AssertionError exactly when
  forward returned a tensor whose shape is not (4, 3).
\<close>

theorem methods_return_and_asserts_fire:
  "(ParserModel_inv m \<and> embeddings_match m \<and> valid_input m w \<and> 0 < size0 w \<longrightarrow>
      (\<exists>x. fst (embedding_lookup m w) = Inr x) \<and>
      (\<exists>y. fst (forward lib m noise w) = Inr y)) \<and>
   fst (embedding_lookup m w) \<noteq> Inl AssertionError \<and>
   fst (forward lib m noise w) \<noteq> Inl AssertionError \<and>
   (fst (check_embedding m inds) = Inl AssertionError) =
     (\<exists>x. fst (embedding_lookup m inds) = Inr x \<and> \<not> list_all (\<lambda>v. v = 0) (data2 x)) \<and>
   (fst (check_forward lib m noise inputs) = Inl AssertionError) =
     (\<exists>out. fst (forward lib m noise inputs) = Inr out \<and> (size0 out, size1 out) \<noteq> (4, 3))"
proof (intro conjI impI)
  assume a: "ParserModel_inv m \<and> embeddings_match m \<and> valid_input m w \<and> 0 < size0 w"
  then show "\<exists>x. fst (embedding_lookup m w) = Inr x"
    by (simp add: embedding_lookup_valid valid_input_def)
  show "\<exists>y. fst (forward lib m noise w) = Inr y"
    using a by (simp add: forward_valid)
next
  show "fst (embedding_lookup m w) \<noteq> Inl AssertionError"
    using embedding_lookup_errors [of m w AssertionError] by auto
  show "fst (forward lib m noise w) \<noteq> Inl AssertionError"
    using forward_errors [of lib m noise w AssertionError] by auto
  show "(fst (check_embedding m inds) = Inl AssertionError) =
     (\<exists>x. fst (embedding_lookup m inds) = Inr x \<and> \<not> list_all (\<lambda>v. v = 0) (data2 x))"
    by (rule check_embedding_assert)
  show "(fst (check_forward lib m noise inputs) = Inl AssertionError) =
     (\<exists>out. fst (forward lib m noise inputs) = Inr out \<and> (size0 out, size1 out) \<noteq> (4, 3))"
    by (rule check_forward_assert)
qed

theorem methods_return_and_asserts_fire_witness:
  "ParserModel_inv example_model \<and> embeddings_match example_model \<and>
   valid_input example_model example_input \<and> 0 < size0 example_input \<and>
   (\<exists>x. fst (embedding_lookup example_model example_input) = Inr x) \<and>
   (\<exists>y. fst (forward example_backend example_model even example_input) = Inr y) \<and>
   fst (check_embedding example_model example_input) = Inl AssertionError \<and>
   fst (check_forward example_backend example_model even example_input) = Inl AssertionError"
proof -
  have b: "0 < size0 example_input" by (simp add: example_input_def)
  note t = methods_return_and_asserts_fire [of example_model example_input example_backend even
      example_input example_input]
  have 1: "(\<exists>x. fst (embedding_lookup example_model example_input) = Inr x) \<and>
           (\<exists>y. fst (forward example_backend example_model even example_input) = Inr y)"
    using t example_inv example_match example_input_valid b by blast
  have "\<not> list_all (\<lambda>v. v = 0) [1, 2, 3, 4, 5, 6, 1, 2 :: real]" by simp
  then have 2: "fst (check_embedding example_model example_input) = Inl AssertionError"
    using t by (simp add: example_lookup)
  have 3: "fst (check_forward example_backend example_model even example_input)
           = Inl AssertionError"
    using t by (simp add: example_forward)
  show ?thesis
    using 1 2 3 example_inv example_match example_input_valid b by blast
qed

section \<open>C7: a row of logits and its own row of indices\<close>














section \<open>C10: what the outputs depend on\<close>

lemma Dropout_forward_eval:
  "\<not> training d \<Longrightarrow> prob_ok (dropout_p d) \<Longrightarrow> Dropout_forward d noise x = Inr x"
  by (simp add: Dropout_forward_def prob_ok_def Let_def)

lemma Dropout_forward_eval_noise:
  "\<not> training d \<Longrightarrow> Dropout_forward d noise x = Dropout_forward d noise' x"
  by (simp add: Dropout_forward_def Let_def)

lemma forward_eval_deterministic:
  assumes "same_parameters m1 m2"
    and "\<not> training (dropout m1)" and "\<not> training (dropout m2)"
    and "prob_ok (dropout_p (dropout m1))" and "prob_ok (dropout_p (dropout m2))"
  shows "fst (forward lib m1 noise1 w) = fst (forward lib m2 noise2 w)"
  using assms
  by (auto simp: forward_def embedding_lookup_def same_parameters_def Dropout_forward_eval
      split: sum.splits)

lemma forward_same_samples:
  assumes "same_parameters m1 m2" and "dropout m1 = dropout m2"
  shows "fst (forward lib m1 noise w) = fst (forward lib m2 noise w)"
  using assms
  by (auto simp: forward_def embedding_lookup_def same_parameters_def split: sum.splits)

lemma forward_eval_noise:
  "\<not> training (dropout m) \<Longrightarrow> forward lib m noise1 w = forward lib m noise2 w"
  using Dropout_forward_eval_noise [of "dropout m" noise1 _ noise2]
  by (auto simp: forward_def embedding_lookup_def split: sum.splits)

text \<open>
  C10. embedding_lookup reads nothing but the embedding matrix and its argument: two models
  with equal embeddings return equal results on equal inputs. In evaluation mode forward
  reads nothing but the five parameters and its argument: two models with equal parameters
  return equal outputs on equal inputs, whatever their other fields are and whatever samples
  the dropout layer would draw; and a second call on the model that the first call returns
  gives the output of the first. In training mode, the dropout samples are the only other
  thing the output depends on: equal parameters, equal dropout layers and equal samples give
  equal outputs. The calls that are compared run on the same library.
\<close>

theorem lookup_and_forward_deterministic:
  "(embeddings m1 = embeddings m2 \<longrightarrow>
      fst (embedding_lookup m1 w) = fst (embedding_lookup m2 w)) \<and>
   (same_parameters m1 m2 \<and> \<not> training (dropout m1) \<and> \<not> training (dropout m2) \<and>
    prob_ok (dropout_p (dropout m1)) \<and> prob_ok (dropout_p (dropout m2)) \<longrightarrow>
      fst (forward lib m1 noise1 w) = fst (forward lib m2 noise2 w)) \<and>
   (\<not> training (dropout m1) \<longrightarrow>
      fst (forward lib (snd (forward lib m1 noise1 w)) noise2 w)
        = fst (forward lib m1 noise1 w)) \<and>
   (same_parameters m1 m2 \<and> dropout m1 = dropout m2 \<longrightarrow>
      fst (forward lib m1 noise1 w) = fst (forward lib m2 noise1 w))"
proof (intro conjI impI)
  assume "embeddings m1 = embeddings m2"
  then show "fst (embedding_lookup m1 w) = fst (embedding_lookup m2 w)"
    by (rule embedding_lookup_reads_embeddings)
next
  assume "same_parameters m1 m2 \<and> \<not> training (dropout m1) \<and> \<not> training (dropout m2) \<and>
    prob_ok (dropout_p (dropout m1)) \<and> prob_ok (dropout_p (dropout m2))"
  then show "fst (forward lib m1 noise1 w) = fst (forward lib m2 noise2 w)"
    by (simp add: forward_eval_deterministic)
next
  assume "\<not> training (dropout m1)"
  then show "fst (forward lib (snd (forward lib m1 noise1 w)) noise2 w)
               = fst (forward lib m1 noise1 w)"
    by (simp add: forward_frame forward_eval_noise [of m1 lib noise2 w noise1])
next
  assume "same_parameters m1 m2 \<and> dropout m1 = dropout m2"
  then show "fst (forward lib m1 noise1 w) = fst (forward lib m2 noise1 w)"
    by (simp add: forward_same_samples)
qed

theorem lookup_and_forward_deterministic_witness:
  "embeddings example_model_eval = embeddings example_model_eval2 \<and>
   fst (embedding_lookup example_model_eval example_input) =
     fst (embedding_lookup example_model_eval2 example_input) \<and>
   same_parameters example_model_eval example_model_eval2 \<and>
   \<not> training (dropout example_model_eval) \<and> \<not> training (dropout example_model_eval2) \<and>
   prob_ok (dropout_p (dropout example_model_eval)) \<and>
   prob_ok (dropout_p (dropout example_model_eval2)) \<and>
   fst (forward example_backend example_model_eval even example_input) =
     fst (forward example_backend example_model_eval2 (\<lambda>k. True) example_input) \<and>
   fst (forward example_backend
          (snd (forward example_backend example_model_eval even example_input))
          (\<lambda>k. True) example_input) =
     fst (forward example_backend example_model_eval even example_input) \<and>
   same_parameters example_model example_model2 \<and>
   dropout example_model = dropout example_model2 \<and>
   fst (forward example_backend example_model even example_input) =
     fst (forward example_backend example_model2 even example_input) \<and>
   fst (forward example_backend example_model even example_input) =
     Inr \<lparr>size0 = 2, size1 = 2, data2 = [1, 0, 9, 16], dtype = Float32\<rparr> \<and>
   fst (forward example_backend example_model (\<lambda>k. True) example_input) =
     Inr \<lparr>size0 = 2, size1 = 2, data2 = [1, 0, 39, 56], dtype = Float32\<rparr>"
proof -
  have e: "embeddings example_model_eval = embeddings example_model_eval2"
    and s: "same_parameters example_model_eval example_model_eval2"
    and t: "\<not> training (dropout example_model_eval)" "\<not> training (dropout example_model_eval2)"
    and p: "prob_ok (dropout_p (dropout example_model_eval))"
      "prob_ok (dropout_p (dropout example_model_eval2))"
    by (simp_all add: example_model_eval_def example_model_eval2_def example_model_def
        same_parameters_def prob_ok_def)
  have s': "same_parameters example_model example_model2"
    "dropout example_model = dropout example_model2"
    by (simp_all add: same_parameters_def example_model2_def)
  have v: "fst (forward example_backend example_model (\<lambda>k. True) example_input) =
     Inr \<lparr>size0 = 2, size1 = 2, data2 = [1, 0, 39, 56], dtype = Float32\<rparr>"
    by code_simp
  note th = lookup_and_forward_deterministic [of example_model_eval example_model_eval2
      example_input example_backend even "\<lambda>k. True"]
  note th' = lookup_and_forward_deterministic [of example_model example_model2
      example_input example_backend even even]
  have "fst (forward example_backend example_model even example_input) =
     fst (forward example_backend example_model2 even example_input)"
    using th' s' by blast
  then show ?thesis
    using th e s t p s' v example_forward by simp
qed

section \<open>C4: which checks a run of the notebook calls\<close>

lemma embedding_branch_default:
  assumes d: "ParserModel_default (zeros2 Float32 100 30) u1 u2 u3 u4 = Inr model"
    and r: "randint_0_100_4_36 inds"
  shows "embedding_branch model inds tr =
           (Inr model,
            tr @ [Runs_check_embedding, Prints ''Embedding_lookup sanity check passes!''])"
  using check_embedding_zeros(2) [OF default_model_facts(2) [OF d] r]
  by (simp add: embedding_branch_def)

lemma cell3_run:
  assumes p: "prob_ok (1 / (1 + 1) :: 'a::{zero,one,plus,minus,times,inverse,ord})"
    and r: "randint_0_100_4_36 (randint_inds (r3 :: 'a draws))"
  shows "cell3 lib notebook_args r3 tr =
           (Inr (), tr @ [Runs_check_embedding, Prints ''Embedding_lookup sanity check passes!''])"
proof -
  obtain model where
    d: "ParserModel_default (zeros2 Float32 100 30)
          (init_u1 r3) (init_u2 r3) (init_u3 r3) (init_u4 r3) = Inr model"
    unfolding ParserModel_default_def using ParserModel_init_ok [OF p] by blast
  show ?thesis
    by (simp add: cell3_def d embedding_branch_default [OF d r] notebook_args_def)
qed

lemma cell4_run:
  assumes p: "prob_ok (1 / (1 + 1) :: 'a::{zero,one,plus,inverse,ord})"
    and r: "randint_0_100_4_36 (randint_inds (r4 :: 'a draws))"
  shows "cell4 notebook_args r4 tr =
           (Inr (), tr @ [Runs_check_embedding, Prints ''Embedding_lookup sanity check passes!''])"
proof -
  obtain model where
    d: "ParserModel_default (zeros2 Float32 100 30)
          (init_u1 r4) (init_u2 r4) (init_u3 r4) (init_u4 r4) = Inr model"
    unfolding ParserModel_default_def using ParserModel_init_ok [OF p] by blast
  show ?thesis
    by (simp add: cell4_def d embedding_branch_default [OF d r] notebook_args_def)
qed

lemma cell5_run:
  assumes p: "prob_ok (1 / (1 + 1) :: 'a::{zero,one,plus,minus,times,inverse,ord})"
  shows "cell5 lib notebook_args (r5 :: 'a draws) tr = (Inr (), tr @ [Prints ''No''])"
proof -
  obtain model where
    d: "ParserModel_default (zeros2 Float32 100 30)
          (init_u1 r5) (init_u2 r5) (init_u3 r5) (init_u4 r5) = Inr model"
    unfolding ParserModel_default_def using ParserModel_init_ok [OF p] by blast
  show ?thesis
    by (simp add: cell5_def d notebook_args_def)
qed

lemma run_notebook_trace:
  assumes p: "prob_ok (1 / (1 + 1) :: 'a::{zero,one,plus,minus,times,inverse,ord})"
    and r3: "randint_0_100_4_36 (randint_inds (r3 :: 'a draws))"
    and r4: "randint_0_100_4_36 (randint_inds (r4 :: 'a draws))"
  shows "run_notebook lib executable r3 r4 (r5 :: 'a draws) =
           (Inr (),
            [Runs_check_embedding, Prints ''Embedding_lookup sanity check passes!'',
             Runs_check_embedding, Prints ''Embedding_lookup sanity check passes!'',
             Prints ''No'', Prints executable])"
  by (simp add: run_notebook_def cell3_run [OF p r3] cell4_run [OF p r4] cell5_run [OF p]
      cell6_def)

text \<open>
  C4, as the claim states it, fails: in a run of the notebook check_forward is not called.
  The second cell sets \<^verbatim>\<open>forward=False\<close>, so the guard \<^verbatim>\<open>if args.forward\<close> is false in
  both cells that define check_forward, and the second of them prints "No".
\<close>

theorem check_forward_not_run_counterexample:
  "fst (run_notebook example_backend ''/usr/bin/python3''
          example_draws example_draws example_draws) = Inr () \<and>
   Runs_check_forward \<notin>
     set (snd (run_notebook example_backend ''/usr/bin/python3''
                 example_draws example_draws example_draws)) \<and>
   Prints ''Forward sanity check passes!'' \<notin>
     set (snd (run_notebook example_backend ''/usr/bin/python3''
                 example_draws example_draws example_draws))"
  by (simp add: run_notebook_trace [OF half_ok example_draws_randint example_draws_randint])

text \<open>
  C4, amended. When the notebook is run, with \<^verbatim>\<open>args\<close> as its second cell sets them
  (embedding=True, forward=False), check_embedding is called and passes in the cell that
  defines the class and again in the next cell; check_forward is defined and never called,
  and the cell after prints "No". This holds whatever the random draws and the library are,
  for any scalar arithmetic in which the default dropout probability 0.5 is within [0, 1].
\<close>

theorem notebook_runs_check_embedding_only:
  assumes "prob_ok (1 / (1 + 1) :: 'a::{zero,one,plus,minus,times,inverse,ord})"
    and "randint_0_100_4_36 (randint_inds (r3 :: 'a draws))"
    and "randint_0_100_4_36 (randint_inds (r4 :: 'a draws))"
  shows "run_notebook lib executable r3 r4 (r5 :: 'a draws) =
           (Inr (),
            [Runs_check_embedding, Prints ''Embedding_lookup sanity check passes!'',
             Runs_check_embedding, Prints ''Embedding_lookup sanity check passes!'',
             Prints ''No'', Prints executable])"
  using assms by (rule run_notebook_trace)

theorem notebook_runs_check_embedding_only_witness:
  "prob_ok (1 / (1 + 1) :: real) \<and> randint_0_100_4_36 (randint_inds example_draws) \<and>
   run_notebook example_backend ''/usr/bin/python3'' example_draws example_draws example_draws =
     (Inr (),
      [Runs_check_embedding, Prints ''Embedding_lookup sanity check passes!'',
       Runs_check_embedding, Prints ''Embedding_lookup sanity check passes!'',
       Prints ''No'', Prints ''/usr/bin/python3''])"
  using notebook_runs_check_embedding_only [OF half_ok example_draws_randint
      example_draws_randint, of example_backend "''/usr/bin/python3''" example_draws]
    half_ok example_draws_randint
  by simp

end
